theory Spec2Isabelle
  imports Main "HOL-Library.Word"
begin

unbundle bit_operations_syntax

section \<open>The BFQ I/O scheduler (block/bfq-iosched.c)\<close>

text \<open>
  A shallow embedding of the parts of \<^verbatim>\<open>block/bfq-iosched.c\<close> that the
  properties below are about. The header \<^verbatim>\<open>bfq.h\<close> and the included files
  \<^verbatim>\<open>bfq-sched.c\<close>, \<^verbatim>\<open>bfq-ioc.c\<close> and \<^verbatim>\<open>bfq-cgroup.c\<close> are not
  part of the sources at hand. Struct fields are therefore typed by the way the code
  uses them; the casts and local variable types that the functions themselves write
  down (\<^verbatim>\<open>u32\<close>, \<^verbatim>\<open>u64\<close>, \<^verbatim>\<open>max_t(unsigned long, ...)\<close>) are applied as
  written. \<^verbatim>\<open>unsigned long\<close> and \<^verbatim>\<open>sector_t\<close> are 64 bits wide (LP64).
\<close>

type_synonym u32 = "32 word"
type_synonym u64 = "64 word"
type_synonym ulong = "64 word"
type_synonym sector_t = "64 word"

subsection \<open>Constants\<close>

text \<open>\<^verbatim>\<open>static const int bfq_stats_min_budgets = 194;\<close>\<close>

definition bfq_stats_min_budgets :: int where
  "bfq_stats_min_budgets = 194"

text \<open>\<^verbatim>\<open>static const int bfq_default_max_budget = 16 * 1024;\<close>\<close>

definition bfq_default_max_budget :: int where
  "bfq_default_max_budget = 16 * 1024"

text \<open>\<^verbatim>\<open>static const int bfq_async_charge_factor = 10;\<close>\<close>

definition bfq_async_charge_factor :: u32 where
  "bfq_async_charge_factor = 10"

text \<open>\<^verbatim>\<open>#define BFQQ_CLOSE_THR (sector_t)(8 * 1024)\<close>\<close>

definition BFQQ_CLOSE_THR :: sector_t where
  "BFQQ_CLOSE_THR = 8 * 1024"

subsection \<open>C integer helpers\<close>

text \<open>
  \<^verbatim>\<open>/\<close> on \<^verbatim>\<open>int\<close> truncates towards zero. Values of type \<^verbatim>\<open>int\<close> are
  modelled as unbounded integers: budgets and service are sector counts far below
  \<open>2^31\<close>, and the products the code forms with them (\<open>budget * 4\<close> at most) are
  assumed not to leave the range of \<^verbatim>\<open>int\<close>.
\<close>

definition c_div :: "int \<Rightarrow> int \<Rightarrow> int" where
  "c_div a b = sgn a * sgn b * (\<bar>a\<bar> div \<bar>b\<bar>)"

text \<open>
  \<^verbatim>\<open>max_t(unsigned long, a, b)\<close> and \<^verbatim>\<open>min_t(unsigned long, a, b)\<close> with an
  \<^verbatim>\<open>int\<close> first operand, the result stored into an \<^verbatim>\<open>int\<close> field: the
  \<^verbatim>\<open>int\<close> is sign-extended to 64 bits, the comparison is unsigned, and the store
  keeps the low 32 bits, read as a signed value.
\<close>

definition ulong_of_int :: "int \<Rightarrow> ulong" where
  "ulong_of_int i = word_of_int i"

definition int_of_ulong :: "ulong \<Rightarrow> int" where
  "int_of_ulong w = sint (ucast w :: 32 word)"

subsection \<open>Data model\<close>

text \<open>
  \<^verbatim>\<open>enum bfqq_expiration\<close>: the five reasons that the code passes to
  \<^verbatim>\<open>bfq_bfqq_expire\<close>.
\<close>

datatype bfqq_expiration =
  BFQ_BFQQ_TOO_IDLE
| BFQ_BFQQ_BUDGET_TIMEOUT
| BFQ_BFQQ_BUDGET_EXHAUSTED
| BFQ_BFQQ_NO_MORE_REQUESTS
| BFQ_BFQQ_PREEMPTED

text \<open>
  \<^verbatim>\<open>struct request\<close>, as far as the scheduler reads it: \<^verbatim>\<open>blk_rq_pos\<close>,
  \<^verbatim>\<open>blk_rq_sectors\<close> (an \<^verbatim>\<open>unsigned int\<close>) and \<^verbatim>\<open>rq->fifo_time\<close>.
\<close>

record request =
  blk_rq_pos :: sector_t
  blk_rq_sectors :: u32
  fifo_time :: ulong

text \<open>\<^verbatim>\<open>struct bfq_entity\<close>: the fields of the per-queue entity used below.\<close>

record bfq_entity =
  budget :: int
  service :: int
  prio_changed :: bool
  on_st :: int

text \<open>
  \<^verbatim>\<open>struct bfq_queue\<close>. The flags are the ones read and written through the
  \<^verbatim>\<open>bfq_bfqq_*\<close>, \<^verbatim>\<open>bfq_mark_bfqq_*\<close> and \<^verbatim>\<open>bfq_clear_bfqq_*\<close>
  accessors; \<open>in_burst_list\<close> stands for
  \<^verbatim>\<open>!hlist_unhashed(&bfqq->burst_list_node)\<close>, \<open>sort_list_empty\<close> for
  \<^verbatim>\<open>RB_EMPTY_ROOT(&bfqq->sort_list)\<close>, \<open>queued0\<close> and \<open>queued1\<close> for
  \<^verbatim>\<open>bfqq->queued[0]\<close> and \<^verbatim>\<open>bfqq->queued[1]\<close>, \<open>allocated_read\<close> and
  \<open>allocated_write\<close> for \<^verbatim>\<open>bfqq->allocated[READ]\<close> and
  \<^verbatim>\<open>bfqq->allocated[WRITE]\<close>; \<open>bic\<close> is the pointer to the owning I/O context
  and \<open>new_bfqq\<close> the pointer to the queue this one is to be merged into (\<open>None\<close>
  for \<^verbatim>\<open>NULL\<close>).
\<close>

record bfq_queue =
  entity :: bfq_entity
  max_budget :: int
  next_rq :: "request option"
  fifo :: "request list"
  sort_list_empty :: bool
  queued0 :: int
  queued1 :: int
  dispatched :: int
  wr_coeff :: nat
  wr_cur_max_time :: ulong
  last_wr_start_finish :: ulong
  budget_timeout :: ulong
  split_time :: ulong
  soft_rt_next_start :: ulong
  last_idle_bklogged :: ulong
  service_from_backlogged :: ulong
  requests_within_timer :: int
  seek_history :: u32
  bic :: "nat option"
  new_bfqq :: "nat option"
  ref :: int
  allocated_read :: int
  allocated_write :: int
  in_burst_list :: bool
  flag_busy :: bool
  flag_sync :: bool
  flag_idle_window :: bool
  flag_IO_bound :: bool
  flag_in_large_burst :: bool
  flag_wait_request :: bool
  flag_non_blocking_wait_rq :: bool
  flag_just_created :: bool
  flag_coop :: bool
  flag_split_coop :: bool
  flag_softrt_update :: bool
  flag_fifo_expire :: bool
  class_idle :: bool

text \<open>
  A red-black tree root, as far as \<^verbatim>\<open>bfq_differentiated_weights\<close> looks at it:
  \<open>Leaf\<close> is the \<^verbatim>\<open>NULL\<close> node, and a node has a left and a right child and the
  weight its counter is for.
\<close>

datatype rb_node = Leaf | Node rb_node nat rb_node

text \<open>\<^verbatim>\<open>enum bfq_device_speed\<close>.\<close>

datatype bfq_device_speed = BFQ_BFQD_SLOW | BFQ_BFQD_FAST

text \<open>
  Conversions and constants of the kernel configuration that the sources at hand do
  not fix: they are parameters of the functions that use them.
\<close>

record kparams =
  HZ :: nat
  jiffies_to_msecs :: "nat \<Rightarrow> nat"
  msecs_to_jiffies :: "nat \<Rightarrow> nat"
  nsecs_to_jiffies :: "nat \<Rightarrow> nat"
  MAX_JIFFY_OFFSET :: ulong
  BFQ_SOFTRT_WEIGHT_FACTOR :: nat
  CONFIG_BFQ_GROUP_IOSCHED :: bool

text \<open>
  \<^verbatim>\<open>struct bfq_data\<close>. \<open>nonrot\<close> stands for
  \<^verbatim>\<open>blk_queue_nonrot(bfqd->queue)\<close>, \<open>queued\<close> for \<^verbatim>\<open>bfqd->queued\<close>;
  \<open>in_service_queue\<close> is a pointer into the queue store.
\<close>

record bfq_data =
  bfq_max_budget :: int
  bfq_user_max_budget :: int
  budgets_assigned :: int
  wr_busy_queues :: int
  busy_queues :: int
  queued :: int
  rq_in_driver :: int
  in_service_queue :: "nat option"
  low_latency :: bool
  strict_guarantees :: bool
  hw_tag :: int
  nonrot :: bool
  bfq_slice_idle :: u32
  bfq_timeout :: nat
  device_speed :: bfq_device_speed
  bfq_wr_coeff :: nat
  bfq_wr_max_time :: ulong
  bfq_wr_rt_max_time :: ulong
  bfq_wr_min_idle_time :: ulong
  bfq_wr_max_softrt_rate :: nat
  bfq_requests_within_timer :: int
  RT_prod :: u64
  queue_weights_tree :: rb_node
  group_weights_tree :: rb_node
  peak_rate :: nat
  peak_rate_samples :: nat
  sequential_samples :: nat
  tot_sectors_dispatched :: nat
  last_rq_max_size :: nat
  delta_from_first_us :: nat
  first_dispatch :: u64
  last_dispatch :: u64
  last_completion :: u64
  last_position :: sector_t

text \<open>
  Zero-filled structures, as \<^verbatim>\<open>kmem_cache_alloc_node(..., __GFP_ZERO, ...)\<close> and
  \<^verbatim>\<open>kzalloc_node\<close> return them; the concrete states used further down are
  written as updates of these. (The sources do not show which device speed is encoded
  as zero; no property below reads it.)
\<close>

definition zero_request :: request where
  "zero_request = \<lparr>blk_rq_pos = 0, blk_rq_sectors = 0, fifo_time = 0\<rparr>"

definition zero_bfqq :: bfq_queue where
  "zero_bfqq = \<lparr>entity = \<lparr>budget = 0, service = 0, prio_changed = False, on_st = 0\<rparr>,
     max_budget = 0, next_rq = None, fifo = [], sort_list_empty = True,
     queued0 = 0, queued1 = 0, dispatched = 0, wr_coeff = 0, wr_cur_max_time = 0,
     last_wr_start_finish = 0, budget_timeout = 0, split_time = 0,
     soft_rt_next_start = 0, last_idle_bklogged = 0, service_from_backlogged = 0,
     requests_within_timer = 0, seek_history = 0, bic = None, new_bfqq = None,
     ref = 0, allocated_read = 0, allocated_write = 0, in_burst_list = False,
     flag_busy = False, flag_sync = False, flag_idle_window = False,
     flag_IO_bound = False, flag_in_large_burst = False, flag_wait_request = False,
     flag_non_blocking_wait_rq = False, flag_just_created = False, flag_coop = False,
     flag_split_coop = False, flag_softrt_update = False, flag_fifo_expire = False,
     class_idle = False\<rparr>"

definition zero_bfqd :: bfq_data where
  "zero_bfqd = \<lparr>bfq_max_budget = 0, bfq_user_max_budget = 0, budgets_assigned = 0,
     wr_busy_queues = 0, busy_queues = 0, queued = 0, rq_in_driver = 0,
     in_service_queue = None, low_latency = False, strict_guarantees = False,
     hw_tag = 0, nonrot = False, bfq_slice_idle = 0, bfq_timeout = 0,
     device_speed = BFQ_BFQD_SLOW, bfq_wr_coeff = 0,
     bfq_wr_max_time = 0, bfq_wr_rt_max_time = 0, bfq_wr_min_idle_time = 0,
     bfq_wr_max_softrt_rate = 0, bfq_requests_within_timer = 0, RT_prod = 0,
     queue_weights_tree = Leaf, group_weights_tree = Leaf, peak_rate = 0,
     peak_rate_samples = 0, sequential_samples = 0, tot_sectors_dispatched = 0,
     last_rq_max_size = 0, delta_from_first_us = 0, first_dispatch = 0,
     last_dispatch = 0, last_completion = 0, last_position = 0\<rparr>"

subsection \<open>Service charging\<close>

text \<open>
  \<^verbatim>\<open>bfq_serv_to_charge(rq, bfqq)\<close>; \<^verbatim>\<open>bfqq->bfqd\<close> is passed as \<open>bfqd\<close>.
  \<^verbatim>\<open>blk_rq_sectors(rq)\<close> is an \<^verbatim>\<open>unsigned int\<close>, so the two products are
  computed in 32 bits and only then widened to the \<^verbatim>\<open>unsigned long\<close> that is
  returned.
\<close>

definition bfq_serv_to_charge :: "bfq_data \<Rightarrow> request \<Rightarrow> bfq_queue \<Rightarrow> ulong" where
  "bfq_serv_to_charge bfqd rq bfqq =
     (if flag_sync bfqq \<or> wr_coeff bfqq > 1 then ucast (blk_rq_sectors rq)
      else if wr_busy_queues bfqd = 0
        then ucast (blk_rq_sectors rq * bfq_async_charge_factor)
      else ucast (blk_rq_sectors rq * 2 * bfq_async_charge_factor))"

subsection \<open>Budgets\<close>

text \<open>\<^verbatim>\<open>bfq_bfqq_budget_left\<close>: \<^verbatim>\<open>entity->budget - entity->service\<close>.\<close>

definition bfq_bfqq_budget_left :: "bfq_queue \<Rightarrow> int" where
  "bfq_bfqq_budget_left bfqq = budget (entity bfqq) - service (entity bfqq)"

text \<open>
  The functions \<^verbatim>\<open>bfq_max_budget(bfqd)\<close> (named \<open>bfq_max_budget_fn\<close> here,
  since the field \<^verbatim>\<open>bfqd->bfq_max_budget\<close> has the name) and
  \<^verbatim>\<open>bfq_min_budget(bfqd)\<close>.
\<close>

definition bfq_max_budget_fn :: "bfq_data \<Rightarrow> int" where
  "bfq_max_budget_fn bfqd =
     (if budgets_assigned bfqd < bfq_stats_min_budgets then bfq_default_max_budget
      else bfq_max_budget bfqd)"

definition bfq_min_budget :: "bfq_data \<Rightarrow> int" where
  "bfq_min_budget bfqd =
     (if budgets_assigned bfqd < bfq_stats_min_budgets
        then c_div bfq_default_max_budget 32
      else c_div (bfq_max_budget bfqd) 32)"



subsection \<open>Jiffies comparisons\<close>

text \<open>
  The macros of \<^verbatim>\<open>linux/jiffies.h\<close>, which compare two \<^verbatim>\<open>unsigned long\<close>
  times by the sign of their wrapped difference. The current value of
  \<^verbatim>\<open>jiffies\<close> is an explicit argument of every function that reads it.
\<close>

definition time_after :: "ulong \<Rightarrow> ulong \<Rightarrow> bool" where
  "time_after a b \<longleftrightarrow> sint (b - a) < 0"

definition time_before :: "ulong \<Rightarrow> ulong \<Rightarrow> bool" where
  "time_before a b \<longleftrightarrow> time_after b a"

definition time_after_eq :: "ulong \<Rightarrow> ulong \<Rightarrow> bool" where
  "time_after_eq a b \<longleftrightarrow> sint (a - b) \<ge> 0"

definition time_before_eq :: "ulong \<Rightarrow> ulong \<Rightarrow> bool" where
  "time_before_eq a b \<longleftrightarrow> time_after_eq b a"

definition time_is_before_jiffies :: "ulong \<Rightarrow> ulong \<Rightarrow> bool" where
  "time_is_before_jiffies jiffies a \<longleftrightarrow> time_after jiffies a"

definition time_is_after_jiffies :: "ulong \<Rightarrow> ulong \<Rightarrow> bool" where
  "time_is_after_jiffies jiffies a \<longleftrightarrow> time_before jiffies a"


definition time_is_after_eq_jiffies :: "ulong \<Rightarrow> ulong \<Rightarrow> bool" where
  "time_is_after_eq_jiffies jiffies a \<longleftrightarrow> time_before_eq jiffies a"

subsection \<open>Dispatching one request\<close>




subsection \<open>The stated budget policy and the budget invariant\<close>




subsection \<open>Closeness of a request to a sector\<close>

text \<open>
  \<^verbatim>\<open>bfq_io_struct_pos(io_struct, request)\<close>: the \<^verbatim>\<open>void *\<close> together with the
  flag \<^verbatim>\<open>request\<close> is a request or a bio; of a bio only
  \<^verbatim>\<open>bi_iter.bi_sector\<close> is read.
\<close>

datatype io_struct = IO_request request | IO_bio sector_t

definition bfq_io_struct_pos :: "io_struct \<Rightarrow> sector_t" where
  "bfq_io_struct_pos io = (case io of IO_request rq \<Rightarrow> blk_rq_pos rq | IO_bio s \<Rightarrow> s)"

text \<open>
  \<^verbatim>\<open>abs()\<close> reads the (wrapped) unsigned difference as a signed \<^verbatim>\<open>long\<close>
  and negates it when negative; the result is compared with the threshold as an
  unsigned value.
\<close>

definition kabs :: "64 word \<Rightarrow> 64 word" where
  "kabs x = (if sint x < 0 then - x else x)"

definition bfq_rq_close_to_sector :: "io_struct \<Rightarrow> sector_t \<Rightarrow> bool" where
  "bfq_rq_close_to_sector io sector \<longleftrightarrow>
     kabs (bfq_io_struct_pos io - sector) \<le> BFQQ_CLOSE_THR"

text \<open>
  The size of a sector, from \<^verbatim>\<open>bfq_choose_req\<close>: ``By definition, 1KiB is 2
  sectors''. \<open>sector_distance\<close> is the distance between two sector numbers, the
  quantity the threshold is meant to bound.
\<close>

definition sectors_per_KiB :: nat where
  "sectors_per_KiB = 2"

definition sector_distance :: "sector_t \<Rightarrow> sector_t \<Rightarrow> nat" where
  "sector_distance a b = nat \<bar>uint a - uint b\<bar>"

subsection \<open>Example states\<close>

text \<open>
  A device with the default maximum budget, and a busy sync queue on it that is not
  weight-raised, holds a budget of 1024 sectors of which it has consumed 100, and has
  a request of 8 sectors next.
\<close>

definition example_bfqd :: bfq_data where
  "example_bfqd = zero_bfqd\<lparr>bfq_max_budget := 16384\<rparr>"


subsection \<open>The peak-rate estimator\<close>

definition BFQ_RATE_MIN_SAMPLES :: nat where
  "BFQ_RATE_MIN_SAMPLES = 32"

text \<open>\<^verbatim>\<open>300*USEC_PER_MSEC\<close>, in microseconds.\<close>

definition BFQ_RATE_MIN_INTERVAL :: nat where
  "BFQ_RATE_MIN_INTERVAL = 300 * 1000"

text \<open>\<^verbatim>\<open>USEC_PER_SEC\<close>.\<close>

definition BFQ_RATE_REF_INTERVAL :: nat where
  "BFQ_RATE_REF_INTERVAL = 1000000"

definition BFQ_RATE_SHIFT :: nat where
  "BFQ_RATE_SHIFT = 16"

text \<open>\<^verbatim>\<open>2 * NSEC_PER_MSEC\<close>, in nanoseconds.\<close>

definition BFQ_MIN_TT :: nat where
  "BFQ_MIN_TT = 2 * 1000000"

definition BFQQ_SEEK_THR :: sector_t where
  "BFQQ_SEEK_THR = 8 * 100"

text \<open>The reference rates \<^verbatim>\<open>R_slow\<close> and \<^verbatim>\<open>R_fast\<close>, indexed by \<open>nonrot\<close>.\<close>

definition R_slow :: "bool \<Rightarrow> nat" where
  "R_slow dev_type = (if dev_type then 10700 else 1000)"

definition R_fast :: "bool \<Rightarrow> nat" where
  "R_fast dev_type = (if dev_type then 33000 else 14000)"

text \<open>
  \<^verbatim>\<open>T_slow\<close>, \<^verbatim>\<open>T_fast\<close> and \<^verbatim>\<open>device_speed_thresh\<close>, as
  \<^verbatim>\<open>bfq_init\<close> fills them in.
\<close>

definition T_slow :: "kparams \<Rightarrow> bool \<Rightarrow> nat" where
  "T_slow kp dev_type = (if dev_type then msecs_to_jiffies kp 1000 else msecs_to_jiffies kp 3500)"

definition T_fast :: "kparams \<Rightarrow> bool \<Rightarrow> nat" where
  "T_fast kp dev_type = (if dev_type then msecs_to_jiffies kp 2500 else msecs_to_jiffies kp 7000)"

definition device_speed_thresh :: "bool \<Rightarrow> nat" where
  "device_speed_thresh dev_type = (4 * R_slow dev_type) div 3"

text \<open>
  \<^verbatim>\<open>get_sdist(last_pos, rq)\<close>: the distance of the request from the last
  position, or 0 when there is no last position.
\<close>

definition get_sdist :: "sector_t \<Rightarrow> request \<Rightarrow> sector_t" where
  "get_sdist last_pos rq =
     (if last_pos \<noteq> 0 then
        (if last_pos < blk_rq_pos rq then blk_rq_pos rq - last_pos
         else last_pos - blk_rq_pos rq)
      else 0)"

text \<open>
  \<^verbatim>\<open>bfq_calc_max_budget\<close>: a 64-bit product, shifted right; the
  \<^verbatim>\<open>unsigned long\<close> result is stored into the \<^verbatim>\<open>int\<close>
  \<^verbatim>\<open>bfqd->bfq_max_budget\<close> by the caller.
\<close>

definition bfq_calc_max_budget :: "kparams \<Rightarrow> bfq_data \<Rightarrow> ulong" where
  "bfq_calc_max_budget kp bfqd =
     drop_bit BFQ_RATE_SHIFT
       (word_of_nat (peak_rate bfqd) * 1000 * word_of_nat (jiffies_to_msecs kp (bfq_timeout bfqd)))"

text \<open>
  \<^verbatim>\<open>update_thr_responsiveness_params(bfqd)\<close>, in its two steps: the maximum
  budget, recomputed unless the user has set it, and the speed class of the device.
  \<open>None\<close> is a failed \<^verbatim>\<open>BUG_ON\<close>. The products \<^verbatim>\<open>R * T\<close> are
  \<^verbatim>\<open>int\<close> products stored into the 64-bit \<^verbatim>\<open>RT_prod\<close>.
\<close>

definition thr_update_max_budget :: "kparams \<Rightarrow> bfq_data \<Rightarrow> bfq_data" where
  "thr_update_max_budget kp bfqd =
     (if bfq_user_max_budget bfqd = 0
      then bfqd\<lparr>bfq_max_budget := int_of_ulong (bfq_calc_max_budget kp bfqd)\<rparr>
      else bfqd)"

definition thr_update_speed :: "kparams \<Rightarrow> bfq_data \<Rightarrow> bfq_data" where
  "thr_update_speed kp bfqd =
     (let dev_type = nonrot bfqd
      in if device_speed bfqd = BFQ_BFQD_FAST \<and> peak_rate bfqd < device_speed_thresh dev_type
           then bfqd\<lparr>device_speed := BFQ_BFQD_SLOW,
                     RT_prod := word_of_nat (R_slow dev_type * T_slow kp dev_type)\<rparr>
         else if device_speed bfqd = BFQ_BFQD_SLOW \<and>
                 peak_rate bfqd > device_speed_thresh dev_type
           then bfqd\<lparr>device_speed := BFQ_BFQD_FAST,
                     RT_prod := word_of_nat (R_fast dev_type * T_fast kp dev_type)\<rparr>
         else bfqd)"

definition update_thr_responsiveness_params :: "kparams \<Rightarrow> bfq_data \<Rightarrow> bfq_data option" where
  "update_thr_responsiveness_params kp bfqd =
     (let bfqd1 = thr_update_max_budget kp bfqd
      in if bfq_user_max_budget bfqd = 0 \<and> bfq_max_budget bfqd1 < 0 then None
         else Some (thr_update_speed kp bfqd1))"

text \<open>
  \<^verbatim>\<open>bfq_reset_rate_computation(bfqd, rq)\<close>; \<open>now\<close> is the value that
  \<^verbatim>\<open>ktime_get_ns()\<close> returns there.
\<close>

definition bfq_reset_rate_computation :: "u64 \<Rightarrow> bfq_data \<Rightarrow> request option \<Rightarrow> bfq_data" where
  "bfq_reset_rate_computation now bfqd rq =
     (case rq of
        Some r \<Rightarrow>
          bfqd\<lparr>last_dispatch := now, first_dispatch := now,
               peak_rate_samples := 1, sequential_samples := 0,
               tot_sectors_dispatched := unat (blk_rq_sectors r),
               last_rq_max_size := unat (blk_rq_sectors r)\<rparr>
      | None \<Rightarrow> bfqd\<lparr>peak_rate_samples := 0\<rparr>)"

text \<open>
  The pieces of \<^verbatim>\<open>bfq_update_rate_reset\<close>, in the order of the code. The locals
  \<^verbatim>\<open>bw\<close>, \<^verbatim>\<open>weight\<close> and \<^verbatim>\<open>divisor\<close> are \<^verbatim>\<open>u32\<close>: what is assigned
  to them is reduced modulo \<open>2^32\<close>. \<open>rate_bw\<close> is
  \<^verbatim>\<open>div_u64(tot_sectors_dispatched << BFQ_RATE_SHIFT, delta_from_first_us)\<close>, whose
  dividend is a \<^verbatim>\<open>u64\<close> and whose divisor is a \<^verbatim>\<open>u32\<close>.
\<close>

definition rate_bw :: "bfq_data \<Rightarrow> nat" where
  "rate_bw bfqd =
     (((tot_sectors_dispatched bfqd * 2 ^ BFQ_RATE_SHIFT) mod 2 ^ 64) div
        (delta_from_first_us bfqd mod 2 ^ 32)) mod 2 ^ 32"

text \<open>
  The test that sends \<^verbatim>\<open>bfq_update_rate_reset\<close> to \<^verbatim>\<open>reset_computation\<close>
  without updating the peak rate:
  \<^verbatim>\<open>(peak_rate_samples > (3 * sequential_samples)>>2 && bw <= peak_rate) || bw > 20<<BFQ_RATE_SHIFT\<close>;
  \<^verbatim>\<open>>>\<close> binds tighter than \<^verbatim>\<open>>\<close>.
\<close>

definition rate_sample_rejected :: "bfq_data \<Rightarrow> nat \<Rightarrow> bool" where
  "rate_sample_rejected bfqd bw \<longleftrightarrow>
     (peak_rate_samples bfqd > (3 * sequential_samples bfqd) div 4 \<and> bw \<le> peak_rate bfqd) \<or>
     bw > 20 * 2 ^ BFQ_RATE_SHIFT"

definition rate_weight :: "bfq_data \<Rightarrow> nat" where
  "rate_weight bfqd =
     (let weight = ((9 * sequential_samples bfqd) div peak_rate_samples bfqd) mod 2 ^ 32
      in min 8 (((weight * delta_from_first_us bfqd) div BFQ_RATE_REF_INTERVAL) mod 2 ^ 32))"

definition rate_divisor :: "bfq_data \<Rightarrow> nat" where
  "rate_divisor bfqd = (10 + 2 ^ 32 - rate_weight bfqd) mod 2 ^ 32"

text \<open>
  \<^verbatim>\<open>bfq_update_rate_reset(bfqd, rq)\<close>. \<open>None\<close> is a failed \<^verbatim>\<open>BUG_ON\<close> or a
  division by zero. \<open>rate_extend_interval\<close> is the assignment that extends the
  observation interval to the last completion (a \<^verbatim>\<open>max_t(u64, ...)\<close>), and
  \<open>rate_filter\<close> is the part from the comment ``We have to update the peak rate, at
  last!'' to the last \<^verbatim>\<open>BUG_ON\<close>, that is the low-pass filter.
\<close>

definition rate_extend_interval :: "bfq_data \<Rightarrow> bfq_data" where
  "rate_extend_interval bfqd =
     bfqd\<lparr>delta_from_first_us :=
            max (delta_from_first_us bfqd mod 2 ^ 64)
                (unat ((last_completion bfqd - first_dispatch bfqd) div 1000))\<rparr>"

definition rate_filter :: "kparams \<Rightarrow> bfq_data \<Rightarrow> nat \<Rightarrow> bfq_data option" where
  "rate_filter kp bfqd bw =
     (if peak_rate_samples bfqd = 0 \<or> rate_divisor bfqd = 0 then None
      else
        let divisor = rate_divisor bfqd;
            bfqd2 = bfqd\<lparr>peak_rate := (peak_rate bfqd * (divisor - 1)) div divisor\<rparr>;
            bw1 = bw div divisor
        in if peak_rate bfqd2 = 0 \<or> peak_rate bfqd2 > 20 * 2 ^ BFQ_RATE_SHIFT then None
           else
             (case update_thr_responsiveness_params kp
                     (bfqd2\<lparr>peak_rate := peak_rate bfqd2 + bw1\<rparr>) of
                None \<Rightarrow> None
              | Some bfqd3 \<Rightarrow>
                  if peak_rate bfqd3 > 20 * 2 ^ BFQ_RATE_SHIFT then None else Some bfqd3))"

definition bfq_update_rate_reset ::
  "kparams \<Rightarrow> u64 \<Rightarrow> bfq_data \<Rightarrow> request option \<Rightarrow> bfq_data option" where
  "bfq_update_rate_reset kp now bfqd rq =
     (if peak_rate_samples bfqd < BFQ_RATE_MIN_SAMPLES \<or>
         delta_from_first_us bfqd < BFQ_RATE_MIN_INTERVAL
      then Some (bfq_reset_rate_computation now bfqd rq)
      else
        let bfqd1 = rate_extend_interval bfqd
        in if delta_from_first_us bfqd1 = 0 \<or> delta_from_first_us bfqd1 mod 2 ^ 32 = 0
           then None
           else if rate_sample_rejected bfqd1 (rate_bw bfqd1)
           then Some (bfq_reset_rate_computation now bfqd1 rq)
           else map_option (\<lambda>b. bfq_reset_rate_computation now b rq)
                  (rate_filter kp bfqd1 (rate_bw bfqd1)))"

text \<open>
  \<^verbatim>\<open>bfq_update_peak_rate(bfqd, rq)\<close>, invoked on every dispatch. \<open>now_ns\<close> is
  the clock read at the start of the function and \<open>now_reset\<close> the one read in
  \<^verbatim>\<open>bfq_reset_rate_computation\<close>. \<open>peak_rate_sample\<close> is the part of the
  function after the test for the first dispatch and before the label
  \<^verbatim>\<open>update_rate_and_reset\<close>: it returns the state and whether control goes to
  that label (rather than to \<^verbatim>\<open>update_last_values\<close>).
\<close>

definition update_last_values :: "u64 \<Rightarrow> request \<Rightarrow> bfq_data \<Rightarrow> bfq_data" where
  "update_last_values now_ns rq bfqd =
     bfqd\<lparr>last_position := blk_rq_pos rq + ucast (blk_rq_sectors rq),
          last_dispatch := now_ns\<rparr>"

definition peak_rate_sample :: "u64 \<Rightarrow> bfq_data \<Rightarrow> request \<Rightarrow> bfq_data \<times> bool" where
  "peak_rate_sample now_ns bfqd rq =
     (if unat (now_ns - last_dispatch bfqd) > 100 * 1000000 \<and> rq_in_driver bfqd = 0
      then (bfqd, True)
      else
        let bfqd1 = bfqd\<lparr>peak_rate_samples := peak_rate_samples bfqd + 1\<rparr>;
            bfqd2 = (if (rq_in_driver bfqd1 > 0 \<or>
                         unat (now_ns - last_completion bfqd1) < BFQ_MIN_TT) \<and>
                        get_sdist (last_position bfqd1) rq < BFQQ_SEEK_THR
                     then bfqd1\<lparr>sequential_samples := sequential_samples bfqd1 + 1\<rparr>
                     else bfqd1);
            bfqd3 = bfqd2\<lparr>tot_sectors_dispatched :=
                             tot_sectors_dispatched bfqd2 + unat (blk_rq_sectors rq)\<rparr>;
            bfqd4 = (if peak_rate_samples bfqd3 mod 32 \<noteq> 0
                     then bfqd3\<lparr>last_rq_max_size :=
                                   max (unat (blk_rq_sectors rq)) (last_rq_max_size bfqd3)\<rparr>
                     else bfqd3\<lparr>last_rq_max_size := unat (blk_rq_sectors rq)\<rparr>);
            bfqd5 = bfqd4\<lparr>delta_from_first_us :=
                             unat ((now_ns - first_dispatch bfqd4) div 1000)\<rparr>
        in (bfqd5, \<not> delta_from_first_us bfqd5 < BFQ_RATE_REF_INTERVAL))"

definition bfq_update_peak_rate ::
  "kparams \<Rightarrow> u64 \<Rightarrow> u64 \<Rightarrow> bfq_data \<Rightarrow> request \<Rightarrow> bfq_data option" where
  "bfq_update_peak_rate kp now_ns now_reset bfqd rq =
     (if peak_rate_samples bfqd = 0
      then Some (update_last_values now_ns rq
                   (bfq_reset_rate_computation now_reset bfqd (Some rq)))
      else
        (case peak_rate_sample now_ns bfqd rq of
           (bfqd5, True) \<Rightarrow>
             map_option (update_last_values now_ns rq)
               (bfq_update_rate_reset kp now_reset bfqd5 (Some rq))
         | (bfqd5, False) \<Rightarrow> Some (update_last_values now_ns rq bfqd5)))"

text \<open>
  The part of \<^verbatim>\<open>bfq_completed_request\<close> that concerns the estimator:
  \<^verbatim>\<open>rq_in_driver\<close> is decremented (a \<^verbatim>\<open>BUG_ON\<close> guards it), a completion
  that took long closes the observation interval with
  \<^verbatim>\<open>bfq_update_rate_reset(bfqd, NULL)\<close>, and \<^verbatim>\<open>last_completion\<close> is set.
  \<^verbatim>\<open>delta_us\<close> and \<^verbatim>\<open>last_rq_max_size\<close> are \<^verbatim>\<open>u32\<close>.
  \<open>completed_request_sample\<close> returns the state after the decrement and whether
  \<^verbatim>\<open>bfq_update_rate_reset\<close> is called.
\<close>

definition completed_request_sample :: "u64 \<Rightarrow> bfq_data \<Rightarrow> bfq_data \<times> bool" where
  "completed_request_sample now_ns bfqd =
     (let bfqd1 = bfqd\<lparr>rq_in_driver := rq_in_driver bfqd - 1\<rparr>;
          delta_us = unat ((now_ns - last_completion bfqd1) div 1000) mod 2 ^ 32
      in (bfqd1, delta_us > BFQ_MIN_TT div 1000 \<and>
                 ((last_rq_max_size bfqd1 * 2 ^ BFQ_RATE_SHIFT) mod 2 ^ 32) div delta_us
                    < 2 ^ (BFQ_RATE_SHIFT - 10)))"

definition bfq_completed_request_rate :: "kparams \<Rightarrow> u64 \<Rightarrow> bfq_data \<Rightarrow> bfq_data option" where
  "bfq_completed_request_rate kp now_ns bfqd =
     (if rq_in_driver bfqd = 0 then None
      else
        (case completed_request_sample now_ns bfqd of
           (bfqd1, True) \<Rightarrow>
             map_option (\<lambda>b. b\<lparr>last_completion := now_ns\<rparr>)
               (bfq_update_rate_reset kp now_ns bfqd1 None)
         | (bfqd1, False) \<Rightarrow> Some (bfqd1\<lparr>last_completion := now_ns\<rparr>)))"

text \<open>
  The callbacks that write the estimator's inputs, as events: a dispatch (with its two
  clock readings), a completion, and the activation and deactivation of a request
  (\<^verbatim>\<open>bfq_activate_request\<close>, \<^verbatim>\<open>bfq_deactivate_request\<close>), which count
  \<^verbatim>\<open>rq_in_driver\<close>.
\<close>

datatype rate_event =
  Ev_dispatch u64 u64 request
| Ev_completed u64
| Ev_activate
| Ev_deactivate

definition rate_step :: "kparams \<Rightarrow> bfq_data \<Rightarrow> rate_event \<Rightarrow> bfq_data option" where
  "rate_step kp bfqd ev =
     (case ev of
        Ev_dispatch now_ns now_reset rq \<Rightarrow> bfq_update_peak_rate kp now_ns now_reset bfqd rq
      | Ev_completed now_ns \<Rightarrow> bfq_completed_request_rate kp now_ns bfqd
      | Ev_activate \<Rightarrow> Some (bfqd\<lparr>rq_in_driver := rq_in_driver bfqd + 1\<rparr>)
      | Ev_deactivate \<Rightarrow>
          if rq_in_driver bfqd = 0 then None
          else Some (bfqd\<lparr>rq_in_driver := rq_in_driver bfqd - 1\<rparr>))"

fun rate_run :: "kparams \<Rightarrow> bfq_data \<Rightarrow> rate_event list \<Rightarrow> bfq_data option" where
  "rate_run kp bfqd [] = Some bfqd"
| "rate_run kp bfqd (ev # evs) =
     (case rate_step kp bfqd ev of None \<Rightarrow> None | Some bfqd' \<Rightarrow> rate_run kp bfqd' evs)"

text \<open>
  The state on which the callback of an event calls \<^verbatim>\<open>bfq_update_rate_reset\<close>,
  if it does.
\<close>

definition rate_update_arg :: "bfq_data \<Rightarrow> rate_event \<Rightarrow> bfq_data option" where
  "rate_update_arg bfqd ev =
     (case ev of
        Ev_dispatch now_ns now_reset rq \<Rightarrow>
          if peak_rate_samples bfqd = 0 then None
          else (case peak_rate_sample now_ns bfqd rq of
                  (bfqd5, True) \<Rightarrow> Some bfqd5 | (bfqd5, False) \<Rightarrow> None)
      | Ev_completed now_ns \<Rightarrow>
          if rq_in_driver bfqd = 0 then None
          else (case completed_request_sample now_ns bfqd of
                  (bfqd1, True) \<Rightarrow> Some bfqd1 | (bfqd1, False) \<Rightarrow> None)
      | Ev_activate \<Rightarrow> None
      | Ev_deactivate \<Rightarrow> None)"

text \<open>
  The invariant of the sample counters: outside an observation window there are no
  samples, and inside one the sequential samples are fewer than the samples.
\<close>

definition rate_inv :: "bfq_data \<Rightarrow> bool" where
  "rate_inv bfqd \<longleftrightarrow>
     peak_rate_samples bfqd = 0 \<or> sequential_samples bfqd < peak_rate_samples bfqd"

text \<open>
  The rejection test as the specification (and the comment in the code) words it: the
  fraction of sequential samples is below 3/4 and the raw rate is at most the current
  estimate, or the raw rate is above 20M sectors/s.
\<close>

definition spec_rate_sample_rejected :: "bfq_data \<Rightarrow> nat \<Rightarrow> bool" where
  "spec_rate_sample_rejected bfqd bw \<longleftrightarrow>
     (4 * sequential_samples bfqd < 3 * peak_rate_samples bfqd \<and> bw \<le> peak_rate bfqd) \<or>
     bw > 20 * 2 ^ BFQ_RATE_SHIFT"

text \<open>
  Example parameters (a kernel with \<open>HZ = 1000\<close>, where a jiffy is a millisecond),
  and an estimator state at the end of an observation window of one second: 40 samples
  of which 36 are sequential, 100000 sectors dispatched, and a current estimate of 7000.
\<close>

definition example_kparams :: kparams where
  "example_kparams = \<lparr>HZ = 1000, jiffies_to_msecs = (\<lambda>j. j), msecs_to_jiffies = (\<lambda>m. m),
     nsecs_to_jiffies = (\<lambda>n. n div 1000000), MAX_JIFFY_OFFSET = 2 ^ 62 - 1,
     BFQ_SOFTRT_WEIGHT_FACTOR = 100, CONFIG_BFQ_GROUP_IOSCHED = False\<rparr>"

definition example_rate_bfqd :: bfq_data where
  "example_rate_bfqd = zero_bfqd\<lparr>peak_rate := 7000, peak_rate_samples := 40,
     sequential_samples := 36, tot_sectors_dispatched := 100000,
     delta_from_first_us := 1000000\<rparr>"

subsection \<open>The idling decision\<close>

text \<open>
  \<^verbatim>\<open>RB_EMPTY_ROOT\<close>, and the children \<^verbatim>\<open>rb_left\<close> and \<^verbatim>\<open>rb_right\<close> of
  a node (read only under a test that the node is not \<^verbatim>\<open>NULL\<close>).
\<close>

definition RB_EMPTY_ROOT :: "rb_node \<Rightarrow> bool" where
  "RB_EMPTY_ROOT root \<longleftrightarrow> root = Leaf"

fun rb_left :: "rb_node \<Rightarrow> rb_node" where
  "rb_left (Node l w r) = l"
| "rb_left Leaf = Leaf"

fun rb_right :: "rb_node \<Rightarrow> rb_node" where
  "rb_right (Node l w r) = r"
| "rb_right Leaf = Leaf"

text \<open>The number of nodes of a tree, that is of weight counters.\<close>

fun rb_size :: "rb_node \<Rightarrow> nat" where
  "rb_size Leaf = 0"
| "rb_size (Node l w r) = rb_size l + 1 + rb_size r"

text \<open>
  \<^verbatim>\<open>bfq_differentiated_weights(bfqd)\<close>; the test of the tree of group weights is
  compiled in under \<^verbatim>\<open>CONFIG_BFQ_GROUP_IOSCHED\<close>.
\<close>

definition bfq_differentiated_weights :: "kparams \<Rightarrow> bfq_data \<Rightarrow> bool" where
  "bfq_differentiated_weights kp bfqd \<longleftrightarrow>
     (\<not> RB_EMPTY_ROOT (queue_weights_tree bfqd) \<and>
      (rb_left (queue_weights_tree bfqd) \<noteq> Leaf \<or> rb_right (queue_weights_tree bfqd) \<noteq> Leaf)) \<or>
     (CONFIG_BFQ_GROUP_IOSCHED kp \<and>
      \<not> RB_EMPTY_ROOT (group_weights_tree bfqd) \<and>
      (rb_left (group_weights_tree bfqd) \<noteq> Leaf \<or> rb_right (group_weights_tree bfqd) \<noteq> Leaf))"

definition bfq_symmetric_scenario :: "kparams \<Rightarrow> bfq_data \<Rightarrow> bool" where
  "bfq_symmetric_scenario kp bfqd \<longleftrightarrow> \<not> bfq_differentiated_weights kp bfqd"

text \<open>\<^verbatim>\<open>bfq_bfqq_may_idle(bfqq)\<close>, with \<^verbatim>\<open>bfqq->bfqd\<close> passed as \<open>bfqd\<close>.\<close>

definition bfq_bfqq_may_idle :: "kparams \<Rightarrow> bfq_data \<Rightarrow> bfq_queue \<Rightarrow> bool" where
  "bfq_bfqq_may_idle kp bfqd bfqq =
     (if strict_guarantees bfqd then True
      else
        let idling_boosts_thr =
              (hw_tag bfqd = 0 \<or>
               (\<not> nonrot bfqd \<and> flag_IO_bound bfqq \<and> flag_idle_window bfqq));
            idling_boosts_thr_without_issues =
              (idling_boosts_thr \<and> wr_busy_queues bfqd = 0);
            asymmetric_scenario =
              (wr_coeff bfqq > 1 \<or> \<not> bfq_symmetric_scenario kp bfqd);
            idling_needed_for_service_guarantees =
              (asymmetric_scenario \<and> \<not> flag_in_large_burst bfqq)
        in flag_sync bfqq \<and>
           (idling_boosts_thr_without_issues \<or> idling_needed_for_service_guarantees))"

text \<open>
  \<^verbatim>\<open>bfq_bfqq_must_idle(bfqq)\<close>, the test under which
  \<^verbatim>\<open>bfq_completed_request\<close> arms the idle-slice timer for the in-service queue.
\<close>

definition bfq_bfqq_must_idle :: "kparams \<Rightarrow> bfq_data \<Rightarrow> bfq_queue \<Rightarrow> bool" where
  "bfq_bfqq_must_idle kp bfqd bfqq \<longleftrightarrow>
     sort_list_empty bfqq \<and> bfq_slice_idle bfqd \<noteq> 0 \<and> bfq_bfqq_may_idle kp bfqd bfqq"

subsection \<open>The idle-slice timer\<close>




subsection \<open>The switch of a queue from idle to busy\<close>

text \<open>\<^verbatim>\<open>bfq_bfqq_idle_for_long_time(bfqd, bfqq)\<close>.\<close>

definition bfq_bfqq_idle_for_long_time :: "ulong \<Rightarrow> bfq_data \<Rightarrow> bfq_queue \<Rightarrow> bool" where
  "bfq_bfqq_idle_for_long_time jiffies bfqd bfqq \<longleftrightarrow>
     dispatched bfqq = 0 \<and>
     time_is_before_jiffies jiffies (budget_timeout bfqq + bfq_wr_min_idle_time bfqd)"

text \<open>
  \<^verbatim>\<open>bfq_wr_duration(bfqd)\<close>. \<^verbatim>\<open>do_div\<close> divides the 64-bit \<^verbatim>\<open>dur\<close> by
  a 32-bit base; \<open>None\<close> is the division by zero. The result is an
  \<^verbatim>\<open>unsigned int\<close>.
\<close>

definition bfq_wr_duration :: "kparams \<Rightarrow> bfq_data \<Rightarrow> ulong option" where
  "bfq_wr_duration kp bfqd =
     (if bfq_wr_max_time bfqd > 0
      then Some (ucast (ucast (bfq_wr_max_time bfqd) :: u32))
      else if peak_rate bfqd mod 2 ^ 32 = 0 then None
      else
        let dur = RT_prod bfqd div word_of_nat (peak_rate bfqd mod 2 ^ 32);
            dur1 = (if dur > word_of_nat (msecs_to_jiffies kp 13000)
                    then word_of_nat (msecs_to_jiffies kp 13000)
                    else if dur < word_of_nat (msecs_to_jiffies kp 3000)
                    then word_of_nat (msecs_to_jiffies kp 3000)
                    else dur)
        in Some (ucast (ucast dur1 :: u32)))"

text \<open>
  \<^verbatim>\<open>bfq_bfqq_update_budg_for_activation(bfqd, bfqq, arrived_in_time,
  wr_or_deserves_wr)\<close>: the queue with its new budget, and the returned flag, which
  tells whether the queue wants to preempt the in-service queue. \<open>None\<close> is a
  failed \<^verbatim>\<open>BUG_ON\<close> or the read of a \<^verbatim>\<open>NULL\<close> \<^verbatim>\<open>next_rq\<close>.
\<close>

definition bfq_bfqq_update_budg_for_activation ::
  "bfq_data \<Rightarrow> bfq_queue \<Rightarrow> bool \<Rightarrow> bool \<Rightarrow> (bfq_queue \<times> bool) option" where
  "bfq_bfqq_update_budg_for_activation bfqd bfqq arrived_in_time wr_or_deserves_wr =
     (if flag_non_blocking_wait_rq bfqq \<and> arrived_in_time then
        (if max_budget bfqq < 0 then None
         else
           let bfqq1 = bfqq\<lparr>entity := (entity bfqq)
                         \<lparr>budget := int_of_ulong (min (ulong_of_int (bfq_bfqq_budget_left bfqq))
                                                       (ulong_of_int (max_budget bfqq)))\<rparr>\<rparr>
           in if budget (entity bfqq1) < 0 then None else Some (bfqq1, True))
      else if max_budget bfqq < 0 then None
      else
        (case next_rq bfqq of
           None \<Rightarrow> None
         | Some rq \<Rightarrow>
             let bfqq1 = bfqq\<lparr>entity := (entity bfqq)
                           \<lparr>budget := int_of_ulong (max (ulong_of_int (max_budget bfqq))
                                                         (bfq_serv_to_charge bfqd rq bfqq))\<rparr>\<rparr>
             in if budget (entity bfqq1) < 0 then None
                else Some (bfqq1\<lparr>flag_non_blocking_wait_rq := False\<rparr>, wr_or_deserves_wr)))"

text \<open>
  \<^verbatim>\<open>bfq_update_bfqq_wr_on_rq_arrival\<close>. \<^verbatim>\<open>wr_coeff\<close> is an
  \<^verbatim>\<open>unsigned int\<close>, so the product with \<^verbatim>\<open>BFQ_SOFTRT_WEIGHT_FACTOR\<close> is
  reduced modulo \<open>2^32\<close>. \<open>None\<close> is a division by zero in
  \<^verbatim>\<open>bfq_wr_duration\<close>.
\<close>

definition bfq_update_bfqq_wr_on_rq_arrival ::
  "kparams \<Rightarrow> ulong \<Rightarrow> bfq_data \<Rightarrow> bfq_queue \<Rightarrow> nat \<Rightarrow> bool \<Rightarrow> bool \<Rightarrow> bool \<Rightarrow> bool \<Rightarrow>
     bfq_queue option" where
  "bfq_update_bfqq_wr_on_rq_arrival kp jiffies bfqd bfqq old_wr_coeff wr_or_deserves_wr
       interactive in_burst soft_rt =
     (if old_wr_coeff = 1 \<and> wr_or_deserves_wr then
        (let started =
               (if interactive
                then map_option
                       (\<lambda>d. bfqq\<lparr>wr_coeff := bfq_wr_coeff bfqd, wr_cur_max_time := d\<rparr>)
                       (bfq_wr_duration kp bfqd)
                else Some (bfqq\<lparr>wr_coeff :=
                                    (bfq_wr_coeff bfqd * BFQ_SOFTRT_WEIGHT_FACTOR kp) mod 2 ^ 32,
                                  wr_cur_max_time := bfq_wr_rt_max_time bfqd\<rparr>))
         in map_option
              (\<lambda>q. q\<lparr>entity := (entity q)
                       \<lparr>budget := int_of_ulong (min (ulong_of_int (budget (entity q)))
                                    (ulong_of_int (2 * bfq_min_budget bfqd)))\<rparr>\<rparr>)
              started)
      else if old_wr_coeff > 1 then
        (if interactive
         then map_option
                (\<lambda>d. bfqq\<lparr>wr_coeff := bfq_wr_coeff bfqd, wr_cur_max_time := d\<rparr>)
                (bfq_wr_duration kp bfqd)
         else if in_burst then Some (bfqq\<lparr>wr_coeff := 1\<rparr>)
         else if time_before (last_wr_start_finish bfqq + wr_cur_max_time bfqq)
                             (jiffies + bfq_wr_rt_max_time bfqd) \<and> soft_rt
         then Some (bfqq\<lparr>last_wr_start_finish := jiffies,
                          wr_cur_max_time := bfq_wr_rt_max_time bfqd,
                          wr_coeff :=
                            (bfq_wr_coeff bfqd * BFQ_SOFTRT_WEIGHT_FACTOR kp) mod 2 ^ 32\<rparr>)
         else Some bfqq)
      else Some bfqq)"

text \<open>
  Modelled from the spec: \<^verbatim>\<open>bfq_add_bfqq_busy(bfqd, bfqq)\<close>, which is defined in
  \<^verbatim>\<open>bfq-sched.c\<close> and not among the sources. The spec describes the transition
  ``empty \<open>\<rightarrow>\<close> busy-waiting'': the queue becomes busy and is counted among the busy
  queues. (The insertion into the service tree is not modelled; what that tree then
  says about preemption is the argument \<open>may_preempt\<close> below.)
\<close>

definition bfq_add_bfqq_busy :: "bfq_data \<Rightarrow> bfq_queue \<Rightarrow> bfq_data \<times> bfq_queue" where
  "bfq_add_bfqq_busy bfqd bfqq =
     (bfqd\<lparr>busy_queues := busy_queues bfqd + 1\<rparr>, bfqq\<lparr>flag_busy := True\<rparr>)"

text \<open>
  The pieces of \<^verbatim>\<open>bfq_bfqq_handle_idle_busy_switch\<close>, in the order of the code:
  the flags computed at its start, the reset of the burst state of a queue that has
  been idle for long, the update of the I/O-bound flag, and the update of the
  weight-raising state under \<^verbatim>\<open>low_latency\<close>.
\<close>

definition switch_arrived_in_time :: "u64 \<Rightarrow> u64 \<Rightarrow> bfq_data \<Rightarrow> bool" where
  "switch_arrived_in_time now_ns last_end_request bfqd \<longleftrightarrow>
     now_ns \<le> last_end_request + ucast (bfq_slice_idle bfqd * 3)"

definition switch_soft_rt :: "ulong \<Rightarrow> bfq_data \<Rightarrow> bfq_queue \<Rightarrow> bool" where
  "switch_soft_rt jiffies bfqd bfqq \<longleftrightarrow>
     bfq_wr_max_softrt_rate bfqd > 0 \<and> \<not> flag_in_large_burst bfqq \<and>
     time_is_before_jiffies jiffies (soft_rt_next_start bfqq)"

definition switch_interactive :: "ulong \<Rightarrow> bfq_data \<Rightarrow> bfq_queue \<Rightarrow> bool" where
  "switch_interactive jiffies bfqd bfqq \<longleftrightarrow>
     \<not> flag_in_large_burst bfqq \<and> bfq_bfqq_idle_for_long_time jiffies bfqd bfqq"

definition switch_wr_or_deserves_wr :: "ulong \<Rightarrow> bfq_data \<Rightarrow> bfq_queue \<Rightarrow> bool" where
  "switch_wr_or_deserves_wr jiffies bfqd bfqq \<longleftrightarrow>
     low_latency bfqd \<and>
     (wr_coeff bfqq > 1 \<or>
      (flag_sync bfqq \<and> bic bfqq \<noteq> None \<and>
       (switch_interactive jiffies bfqd bfqq \<or> switch_soft_rt jiffies bfqd bfqq)))"

definition switch_burst_reset :: "kparams \<Rightarrow> ulong \<Rightarrow> bool \<Rightarrow> bfq_queue \<Rightarrow> bfq_queue" where
  "switch_burst_reset kp jiffies idle_for_long_time bfqq =
     (if \<not> flag_just_created bfqq \<and> idle_for_long_time \<and>
         time_is_before_jiffies jiffies
           (budget_timeout bfqq + word_of_nat (msecs_to_jiffies kp 10000))
      then bfqq\<lparr>in_burst_list := False, flag_in_large_burst := False\<rparr>
      else bfqq)"

definition switch_io_bound :: "bfq_data \<Rightarrow> bool \<Rightarrow> bfq_queue \<Rightarrow> bfq_queue" where
  "switch_io_bound bfqd arrived_in_time bfqq =
     (if \<not> flag_IO_bound bfqq then
        (if arrived_in_time then
           (let bfqq1 = bfqq\<lparr>requests_within_timer := requests_within_timer bfqq + 1\<rparr>
            in if requests_within_timer bfqq1 \<ge> bfq_requests_within_timer bfqd
               then bfqq1\<lparr>flag_IO_bound := True\<rparr> else bfqq1)
         else bfqq\<lparr>requests_within_timer := 0\<rparr>)
      else bfqq)"

definition switch_wr_update ::
  "kparams \<Rightarrow> ulong \<Rightarrow> bfq_data \<Rightarrow> bfq_queue \<Rightarrow> nat \<Rightarrow> bool \<Rightarrow> bool \<Rightarrow> bool \<Rightarrow> bool \<Rightarrow>
     bfq_queue option" where
  "switch_wr_update kp jiffies bfqd bfqq old_wr_coeff wr_or_deserves_wr interactive in_burst
       soft_rt =
     (if low_latency bfqd then
        (let bfqq1 = (if time_is_after_jiffies jiffies (split_time bfqq)
                      then bfqq\<lparr>split_time := jiffies - bfq_wr_min_idle_time bfqd - 1\<rparr>
                      else bfqq)
         in if time_is_before_jiffies jiffies (split_time bfqq1 + bfq_wr_min_idle_time bfqd)
            then map_option
                   (\<lambda>q. if old_wr_coeff \<noteq> wr_coeff q
                        then q\<lparr>entity := (entity q)\<lparr>prio_changed := True\<rparr>\<rparr> else q)
                   (bfq_update_bfqq_wr_on_rq_arrival kp jiffies bfqd bfqq1 old_wr_coeff
                      wr_or_deserves_wr interactive in_burst soft_rt)
            else Some bfqq1)
      else Some bfqq)"

text \<open>
  \<^verbatim>\<open>bfq_bfqq_handle_idle_busy_switch(bfqd, bfqq, old_wr_coeff, rq, interactive)\<close>.
  The queues live in a store and \<open>p\<close> is the address of \<^verbatim>\<open>bfqq\<close>;
  \<open>last_end_request\<close> is \<^verbatim>\<open>RQ_BIC(rq)->ttime.last_end_request\<close>, \<open>now_ns\<close>
  the value of \<^verbatim>\<open>ktime_get_ns()\<close>, and \<open>may_preempt\<close> what
  \<^verbatim>\<open>next_queue_may_preempt(bfqd)\<close> (of \<^verbatim>\<open>bfq-sched.c\<close>) returns when it is
  called. The result is the new state, the value stored through \<^verbatim>\<open>interactive\<close>,
  and the call \<^verbatim>\<open>bfq_bfqq_expire(bfqd, bfqd->in_service_queue, false, reason)\<close>
  that ends the function, if it is made; \<open>None\<close> is a failed \<^verbatim>\<open>BUG_ON\<close>, a
  division by zero or the read of a dangling pointer. The statistics of
  \<^verbatim>\<open>bfqg_stats_update_io_add\<close> are left out.
\<close>

definition bfq_bfqq_handle_idle_busy_switch ::
  "kparams \<Rightarrow> ulong \<Rightarrow> u64 \<Rightarrow> bool \<Rightarrow> bfq_data \<Rightarrow> (nat \<rightharpoonup> bfq_queue) \<Rightarrow> nat \<Rightarrow> nat \<Rightarrow> u64 \<Rightarrow>
     (bfq_data \<times> (nat \<rightharpoonup> bfq_queue) \<times> bool \<times> (nat \<times> bfqq_expiration) option) option" where
  "bfq_bfqq_handle_idle_busy_switch kp jiffies now_ns may_preempt bfqd qs p old_wr_coeff
       last_end_request =
     (case qs p of
        None \<Rightarrow> None
      | Some bfqq \<Rightarrow>
          let idle_for_long_time = bfq_bfqq_idle_for_long_time jiffies bfqd bfqq;
              arrived_in_time = switch_arrived_in_time now_ns last_end_request bfqd
          in if budget (entity bfqq) < service (entity bfqq) \<or> in_service_queue bfqd = Some p
             then None
             else
               let in_burst = flag_in_large_burst bfqq;
                   soft_rt = switch_soft_rt jiffies bfqd bfqq;
                   interactive = switch_interactive jiffies bfqd bfqq;
                   wr_or_deserves_wr = switch_wr_or_deserves_wr jiffies bfqd bfqq
               in case bfq_bfqq_update_budg_for_activation bfqd bfqq arrived_in_time
                         wr_or_deserves_wr of
                    None \<Rightarrow> None
                  | Some (bfqq1, bfqq_wants_to_preempt) \<Rightarrow>
                      let bfqq2 = switch_burst_reset kp jiffies idle_for_long_time bfqq1;
                          bfqq3 = bfqq2\<lparr>flag_just_created := False\<rparr>;
                          bfqq4 = switch_io_bound bfqd arrived_in_time bfqq3
                      in case switch_wr_update kp jiffies bfqd bfqq4 old_wr_coeff
                                wr_or_deserves_wr interactive in_burst soft_rt of
                           None \<Rightarrow> None
                         | Some bfqq5 \<Rightarrow>
                             let bfqq6 = bfqq5\<lparr>last_idle_bklogged := jiffies,
                                               service_from_backlogged := 0,
                                               flag_softrt_update := False\<rparr>;
                                 bfqd1 = fst (bfq_add_bfqq_busy bfqd bfqq6);
                                 bfqq7 = snd (bfq_add_bfqq_busy bfqd bfqq6);
                                 qs1 = qs(p \<mapsto> bfqq7)
                             in case in_service_queue bfqd1 of
                                  None \<Rightarrow> Some (bfqd1, qs1, interactive, None)
                                | Some s \<Rightarrow>
                                    if bfqq_wants_to_preempt then
                                      (case qs1 s of
                                         None \<Rightarrow> None
                                       | Some in_serv \<Rightarrow>
                                           if wr_coeff in_serv < wr_coeff bfqq7 \<and> may_preempt
                                           then Some (bfqd1, qs1, interactive,
                                                      Some (s, BFQ_BFQQ_PREEMPTED))
                                           else Some (bfqd1, qs1, interactive, None))
                                    else Some (bfqd1, qs1, interactive, None))"

text \<open>
  Two observers of the result of \<open>bfq_bfqq_handle_idle_busy_switch\<close>: the expiration
  it requests, and the weight-raising coefficient of the queue at an address in the new
  store.
\<close>

definition switch_expire ::
  "(bfq_data \<times> (nat \<rightharpoonup> bfq_queue) \<times> bool \<times> (nat \<times> bfqq_expiration) option) option \<Rightarrow>
     (nat \<times> bfqq_expiration) option option" where
  "switch_expire r = map_option (\<lambda>(bfqd, qs, interactive, e). e) r"

definition switch_wr_coeff ::
  "(bfq_data \<times> (nat \<rightharpoonup> bfq_queue) \<times> bool \<times> (nat \<times> bfqq_expiration) option) option \<Rightarrow>
     nat \<Rightarrow> nat option" where
  "switch_wr_coeff r a =
     (case r of
        None \<Rightarrow> None
      | Some (bfqd, qs, interactive, e) \<Rightarrow> map_option wr_coeff (qs a))"

text \<open>
  A device with low-latency mode switched off, on which the queue at address 2 is in
  service and is not weight-raised, while the queue at address 1, which is idle and
  about to become busy with a request of 8 sectors, is still weight-raised.
\<close>

definition example_switch_bfqd :: bfq_data where
  "example_switch_bfqd = zero_bfqd\<lparr>bfq_max_budget := 16384, in_service_queue := Some 2,
     busy_queues := 1, low_latency := False\<rparr>"

definition example_switch_queues :: "nat \<rightharpoonup> bfq_queue" where
  "example_switch_queues =
     [1 \<mapsto> zero_bfqq\<lparr>flag_sync := True, wr_coeff := 30, max_budget := 1024,
                      next_rq := Some (zero_request\<lparr>blk_rq_sectors := 8\<rparr>),
                      sort_list_empty := False\<rparr>,
      2 \<mapsto> zero_bfqq\<lparr>flag_sync := True, wr_coeff := 1, flag_busy := True\<rparr>]"

subsection \<open>Merging and splitting queues\<close>

text \<open>
  \<^verbatim>\<open>struct bfq_io_cq\<close>, the per-process I/O context of the scheduler: the state
  saved at a merge, the queues of the process (\<^verbatim>\<open>bic->bfqq[0]\<close> for async and
  \<^verbatim>\<open>bic->bfqq[1]\<close> for sync I/O), the reference count of its
  \<^verbatim>\<open>io_context\<close> (\<^verbatim>\<open>bic->icq.ioc->refcount\<close>), and whether
  \<^verbatim>\<open>IOPRIO_PRIO_CLASS(bic->ioprio)\<close> is \<^verbatim>\<open>IOPRIO_CLASS_IDLE\<close>. These are
  all the \<^verbatim>\<open>saved_*\<close> fields that the code reads or writes.
\<close>

record bfq_io_cq =
  saved_idle_window :: bool
  saved_IO_bound :: bool
  saved_in_large_burst :: bool
  was_in_burst_list :: bool
  bic_bfqq_async :: "nat option"
  bic_bfqq_sync :: "nat option"
  ioc_refcount :: int
  ioprio_class_idle :: bool

text \<open>The store of the queues and I/O contexts, by address.\<close>

record bfq_store =
  queues :: "nat \<rightharpoonup> bfq_queue"
  bics :: "nat \<rightharpoonup> bfq_io_cq"

definition zero_bic :: bfq_io_cq where
  "zero_bic = \<lparr>saved_idle_window = False, saved_IO_bound = False,
     saved_in_large_burst = False, was_in_burst_list = False, bic_bfqq_async = None,
     bic_bfqq_sync = None, ioc_refcount = 0, ioprio_class_idle = False\<rparr>"

text \<open>
  \<^verbatim>\<open>bfqq_process_refs(bfqq)\<close>; \<open>None\<close> is the failed \<^verbatim>\<open>BUG_ON\<close>.
\<close>

definition bfqq_process_refs :: "bfq_queue \<Rightarrow> int option" where
  "bfqq_process_refs bfqq =
     (let io_refs = allocated_read bfqq + allocated_write bfqq;
          process_refs = ref bfqq - io_refs - on_st (entity bfqq)
      in if process_refs < 0 then None else Some process_refs)"

text \<open>
  \<^verbatim>\<open>bfq_bfqq_save_state(bfqq)\<close>, on the queue at address \<open>q\<close>. \<open>None\<close> is
  the read of a dangling pointer.
\<close>

definition bfq_bfqq_save_state :: "bfq_store \<Rightarrow> nat \<Rightarrow> bfq_store option" where
  "bfq_bfqq_save_state h q =
     (case queues h q of
        None \<Rightarrow> None
      | Some bfqq \<Rightarrow>
          (case bic bfqq of
             None \<Rightarrow> Some h
           | Some b \<Rightarrow>
               (case bics h b of
                  None \<Rightarrow> None
                | Some c \<Rightarrow>
                    Some (h\<lparr>bics := (bics h)(b \<mapsto>
                            c\<lparr>saved_idle_window := flag_idle_window bfqq,
                              saved_IO_bound := flag_IO_bound bfqq,
                              saved_in_large_burst := flag_in_large_burst bfqq,
                              was_in_burst_list := in_burst_list bfqq\<rparr>)\<rparr>))))"

text \<open>\<^verbatim>\<open>bfq_get_bic_reference(bfqq)\<close>, on the queue at address \<open>q\<close>.\<close>

definition bfq_get_bic_reference :: "bfq_store \<Rightarrow> nat \<Rightarrow> bfq_store option" where
  "bfq_get_bic_reference h q =
     (case queues h q of
        None \<Rightarrow> None
      | Some bfqq \<Rightarrow>
          (case bic bfqq of
             None \<Rightarrow> Some h
           | Some b \<Rightarrow>
               (case bics h b of
                  None \<Rightarrow> None
                | Some c \<Rightarrow>
                    Some (h\<lparr>bics := (bics h)(b \<mapsto>
                            c\<lparr>ioc_refcount := ioc_refcount c + 1\<rparr>)\<rparr>))))"

text \<open>
  Modelled from the spec: \<^verbatim>\<open>bic_set_bfqq(bic, bfqq, is_sync)\<close>, which is defined
  in \<^verbatim>\<open>bfq-ioc.c\<close> and not among the sources. The spec says that after a merge
  ``all future requests from the origin's I/O-context are steered to the candidate'':
  the queue of the I/O context for sync (or async) I/O is set.
\<close>

definition bic_set_bfqq :: "bfq_store \<Rightarrow> nat \<Rightarrow> nat option \<Rightarrow> bool \<Rightarrow> bfq_store option" where
  "bic_set_bfqq h b q is_sync =
     (case bics h b of
        None \<Rightarrow> None
      | Some c \<Rightarrow>
          Some (h\<lparr>bics := (bics h)(b \<mapsto>
                  (if is_sync then c\<lparr>bic_bfqq_sync := q\<rparr> else c\<lparr>bic_bfqq_async := q\<rparr>))\<rparr>))"

text \<open>
  \<^verbatim>\<open>bfq_put_queue(bfqq)\<close>, on the queue at address \<open>q\<close>: the reference is
  dropped, and with the last reference the queue is freed. \<open>None\<close> is a failed
  \<^verbatim>\<open>BUG_ON\<close>. (The test \<^verbatim>\<open>BUG_ON(bfqq->entity.tree)\<close> and the reference of
  the group are left out.)
\<close>

definition bfq_put_queue :: "bfq_data \<Rightarrow> bfq_store \<Rightarrow> nat \<Rightarrow> bfq_store option" where
  "bfq_put_queue bfqd h q =
     (case queues h q of
        None \<Rightarrow> None
      | Some bfqq \<Rightarrow>
          if ref bfqq \<le> 0 then None
          else
            let bfqq1 = bfqq\<lparr>ref := ref bfqq - 1\<rparr>
            in if ref bfqq1 \<noteq> 0 then Some (h\<lparr>queues := (queues h)(q \<mapsto> bfqq1)\<rparr>)
               else if \<not> sort_list_empty bfqq1 \<or>
                       allocated_read bfqq1 + allocated_write bfqq1 \<noteq> 0 \<or>
                       flag_busy bfqq1 \<or> in_service_queue bfqd = Some q
               then None
               else Some (h\<lparr>queues := (queues h)(q := None)\<rparr>))"

text \<open>
  \<^verbatim>\<open>bfq_merge_bfqqs(bfqd, bic, bfqq, new_bfqq)\<close>, with the addresses \<open>b\<close>,
  \<open>q\<close> and \<open>nq\<close> of the three structures. The function is written as the
  sequence of its statements: the two calls of \<^verbatim>\<open>bfq_bfqq_save_state\<close>, the
  transfer of the I/O-bound flag, the inheritance of the weight raising, the two
  references, the redirection of the I/O context, and the release of \<^verbatim>\<open>bfqq\<close>.
\<close>

definition merge_io_bound :: "bfq_store \<Rightarrow> nat \<Rightarrow> nat \<Rightarrow> bfq_store option" where
  "merge_io_bound h q nq =
     (case (queues h q, queues h nq) of
        (Some bfqq, Some new) \<Rightarrow>
          (let h1 = (if flag_IO_bound bfqq
                     then h\<lparr>queues := (queues h)(nq \<mapsto> new\<lparr>flag_IO_bound := True\<rparr>)\<rparr>
                     else h)
           in case queues h1 q of
                None \<Rightarrow> None
              | Some bfqq1 \<Rightarrow>
                  Some (h1\<lparr>queues := (queues h1)(q \<mapsto> bfqq1\<lparr>flag_IO_bound := False\<rparr>)\<rparr>))
      | _ \<Rightarrow> None)"

definition merge_inherit_wr ::
  "bfq_data \<Rightarrow> bfq_store \<Rightarrow> nat \<Rightarrow> nat \<Rightarrow> (bfq_data \<times> bfq_store) option" where
  "merge_inherit_wr bfqd h q nq =
     (case (queues h q, queues h nq) of
        (Some bfqq, Some new) \<Rightarrow>
          (let (bfqd1, h1) =
                 (if wr_coeff new = 1 \<and> wr_coeff bfqq > 1
                  then ((if flag_busy new
                         then bfqd\<lparr>wr_busy_queues := wr_busy_queues bfqd + 1\<rparr> else bfqd),
                        h\<lparr>queues := (queues h)(nq \<mapsto>
                            new\<lparr>wr_coeff := wr_coeff bfqq,
                                wr_cur_max_time := wr_cur_max_time bfqq,
                                last_wr_start_finish := last_wr_start_finish bfqq,
                                entity := (entity new)\<lparr>prio_changed := True\<rparr>\<rparr>)\<rparr>)
                  else (bfqd, h))
           in case queues h1 q of
                None \<Rightarrow> None
              | Some bfqq1 \<Rightarrow>
                  if wr_coeff bfqq1 > 1
                  then Some ((if flag_busy bfqq1
                              then bfqd1\<lparr>wr_busy_queues := wr_busy_queues bfqd1 - 1\<rparr>
                              else bfqd1),
                             h1\<lparr>queues := (queues h1)(q \<mapsto>
                                 bfqq1\<lparr>wr_coeff := 1,
                                       entity := (entity bfqq1)\<lparr>prio_changed := True\<rparr>\<rparr>)\<rparr>)
                  else Some (bfqd1, h1))
      | _ \<Rightarrow> None)"

definition merge_redirect :: "bfq_store \<Rightarrow> nat \<Rightarrow> nat \<Rightarrow> nat \<Rightarrow> bfq_store option" where
  "merge_redirect h b q nq =
     (case bic_set_bfqq h b (Some nq) True of
        None \<Rightarrow> None
      | Some h1 \<Rightarrow>
          (case queues h1 nq of
             None \<Rightarrow> None
           | Some new \<Rightarrow>
               let h2 = h1\<lparr>queues := (queues h1)(nq \<mapsto> new\<lparr>flag_coop := True, bic := None\<rparr>)\<rparr>
               in case queues h2 q of
                    None \<Rightarrow> None
                  | Some bfqq \<Rightarrow> Some (h2\<lparr>queues := (queues h2)(q \<mapsto> bfqq\<lparr>bic := None\<rparr>)\<rparr>)))"

definition bfq_merge_bfqqs ::
  "bfq_data \<Rightarrow> bfq_store \<Rightarrow> nat \<Rightarrow> nat \<Rightarrow> nat \<Rightarrow> (bfq_data \<times> bfq_store) option" where
  "bfq_merge_bfqqs bfqd h b q nq =
     (case bfq_bfqq_save_state h q of None \<Rightarrow> None | Some h1 \<Rightarrow>
      case bfq_bfqq_save_state h1 nq of None \<Rightarrow> None | Some h2 \<Rightarrow>
      case merge_io_bound h2 q nq of None \<Rightarrow> None | Some h3 \<Rightarrow>
      case merge_inherit_wr bfqd h3 q nq of None \<Rightarrow> None | Some (bfqd1, h4) \<Rightarrow>
      case bfq_get_bic_reference h4 q of None \<Rightarrow> None | Some h5 \<Rightarrow>
      case bfq_get_bic_reference h5 nq of None \<Rightarrow> None | Some h6 \<Rightarrow>
      case merge_redirect h6 b q nq of None \<Rightarrow> None | Some h7 \<Rightarrow>
      case bfq_put_queue bfqd1 h7 q of None \<Rightarrow> None | Some h8 \<Rightarrow> Some (bfqd1, h8))"

text \<open>\<^verbatim>\<open>bfq_bfqq_resume_state(bfqq, bic)\<close>.\<close>

definition bfq_bfqq_resume_state :: "bfq_queue \<Rightarrow> bfq_io_cq \<Rightarrow> bfq_queue" where
  "bfq_bfqq_resume_state bfqq c =
     bfqq\<lparr>flag_idle_window := saved_idle_window c, flag_IO_bound := saved_IO_bound c\<rparr>"

text \<open>
  \<^verbatim>\<open>bfq_set_next_ioprio_data(bfqq, bic)\<close>, as far as the fields of the model go:
  a queue of an I/O context of the idle class loses its idle window, and a change of
  priority is pending. \<^verbatim>\<open>bfq_smallest_from_now\<close> and
  \<^verbatim>\<open>bfq_greatest_from_now\<close> are the farthest past and future instants.
\<close>

definition bfq_set_next_ioprio_data :: "bfq_queue \<Rightarrow> bfq_io_cq \<Rightarrow> bfq_queue" where
  "bfq_set_next_ioprio_data bfqq c =
     (let bfqq1 = (if ioprio_class_idle c then bfqq\<lparr>flag_idle_window := False\<rparr> else bfqq)
      in bfqq1\<lparr>entity := (entity bfqq1)\<lparr>prio_changed := True\<rparr>\<rparr>)"

definition bfq_greatest_from_now :: "kparams \<Rightarrow> ulong \<Rightarrow> ulong" where
  "bfq_greatest_from_now kp jiffies = jiffies + MAX_JIFFY_OFFSET kp"

definition bfq_smallest_from_now :: "kparams \<Rightarrow> ulong \<Rightarrow> ulong" where
  "bfq_smallest_from_now kp jiffies = jiffies - MAX_JIFFY_OFFSET kp"

text \<open>
  \<^verbatim>\<open>bfq_init_bfqq(bfqd, bfqq, bic, pid, is_sync)\<close> on the zero-filled queue that
  \<^verbatim>\<open>bfq_get_queue\<close> has allocated.
\<close>

definition bfq_init_bfqq ::
  "kparams \<Rightarrow> ulong \<Rightarrow> bfq_data \<Rightarrow> bfq_queue \<Rightarrow> bfq_io_cq option \<Rightarrow> bool \<Rightarrow> bfq_queue" where
  "bfq_init_bfqq kp jiffies bfqd bfqq c is_sync =
     (let bfqq1 = bfqq\<lparr>fifo := [], in_burst_list := False, ref := 0\<rparr>;
          bfqq2 = (case c of None \<Rightarrow> bfqq1 | Some c' \<Rightarrow> bfq_set_next_ioprio_data bfqq1 c');
          bfqq3 = (if is_sync
                   then (if \<not> class_idle bfqq2 then bfqq2\<lparr>flag_idle_window := True\<rparr>
                         else bfqq2)\<lparr>flag_sync := True, flag_just_created := True\<rparr>
                   else bfqq2\<lparr>flag_sync := False\<rparr>)
      in bfqq3\<lparr>flag_IO_bound := True,
               max_budget := c_div (2 * bfq_max_budget_fn bfqd) 3,
               wr_coeff := 1,
               last_wr_start_finish := bfq_smallest_from_now kp jiffies,
               budget_timeout := bfq_smallest_from_now kp jiffies,
               split_time := bfq_smallest_from_now kp jiffies,
               soft_rt_next_start := bfq_greatest_from_now kp jiffies,
               seek_history := 1\<rparr>)"

text \<open>
  The path of \<^verbatim>\<open>bfq_set_request\<close> for a sync request of the I/O context at
  address \<open>b\<close> whose shared queue has just been split off and for which
  \<^verbatim>\<open>bfq_get_queue\<close> has allocated a new queue (\<^verbatim>\<open>split && is_sync\<close>, and the
  queue is not the out-of-memory queue): the queue is initialised and gets the
  reference of \<^verbatim>\<open>bfq_get_queue\<close>, its burst state is set from the saved one, its
  split time is set, it gets the reference of the request, and, having exactly one
  process reference, it is bound to the I/O context and its saved state is resumed.
  The result is the new queue and whether it is put on the burst list (it is, before
  the resume, if the saved state says so and no large burst is in progress);
  \<open>large_burst\<close> is \<^verbatim>\<open>bfqd->large_burst\<close> and \<open>rw_write\<close> tells whether
  the request is a write. \<^verbatim>\<open>bfq_init_entity\<close> and the call of
  \<^verbatim>\<open>bfq_handle_burst\<close> that follows are left out.
\<close>

definition bfq_set_request_split ::
  "kparams \<Rightarrow> ulong \<Rightarrow> bfq_data \<Rightarrow> bool \<Rightarrow> bool \<Rightarrow> nat \<Rightarrow> bfq_io_cq \<Rightarrow> bfq_queue option" where
  "bfq_set_request_split kp jiffies bfqd large_burst rw_write b c =
     (let bfqq1 = bfq_init_bfqq kp jiffies bfqd zero_bfqq (Some c) True;
          bfqq2 = bfqq1\<lparr>ref := ref bfqq1 + 1\<rparr>;
          bfqq3 = (if (was_in_burst_list c \<and> large_burst) \<or> saved_in_large_burst c
                   then bfqq2\<lparr>flag_in_large_burst := True\<rparr>
                   else (if was_in_burst_list c
                         then bfqq2\<lparr>flag_in_large_burst := False, in_burst_list := True\<rparr>
                         else bfqq2\<lparr>flag_in_large_burst := False\<rparr>));
          bfqq4 = bfqq3\<lparr>split_time := jiffies\<rparr>;
          bfqq5 = (if rw_write then bfqq4\<lparr>allocated_write := allocated_write bfqq4 + 1\<rparr>
                   else bfqq4\<lparr>allocated_read := allocated_read bfqq4 + 1\<rparr>);
          bfqq6 = bfqq5\<lparr>ref := ref bfqq5 + 1\<rparr>
      in case bfqq_process_refs bfqq6 of
           None \<Rightarrow> None
         | Some n \<Rightarrow>
             if n = 1 then Some (bfq_bfqq_resume_state (bfqq6\<lparr>bic := Some b\<rparr>) c)
             else Some bfqq6)"

text \<open>
  A weight-raised sync queue at address 1, owned by the I/O context at address 7, with
  its idle window enabled, and the queue at address 2 that it is merged into.
\<close>

definition example_merge_store :: bfq_store where
  "example_merge_store =
     \<lparr>queues = [1 \<mapsto> zero_bfqq\<lparr>flag_sync := True, flag_idle_window := True, wr_coeff := 30,
                                wr_cur_max_time := 5000, bic := Some 7, ref := 2\<rparr>,
                 2 \<mapsto> zero_bfqq\<lparr>flag_sync := True, wr_coeff := 1, bic := Some 8, ref := 2\<rparr>],
      bics = [7 \<mapsto> zero_bic\<lparr>bic_bfqq_sync := Some 1\<rparr>,
              8 \<mapsto> zero_bic\<lparr>bic_bfqq_sync := Some 2\<rparr>]\<rparr>"

text \<open>
  The queue that the I/O context at address \<open>b\<close> gets back when its queue \<open>q\<close> is
  merged into the queue \<open>nq\<close> and the shared queue is split later on: the merge,
  followed by the path of \<^verbatim>\<open>bfq_set_request\<close> that allocates the new queue, on
  the state saved in the I/O context (which nothing but a merge writes, apart from
  \<^verbatim>\<open>saved_in_large_burst\<close>).
\<close>

definition merge_then_split ::
  "kparams \<Rightarrow> ulong \<Rightarrow> bfq_data \<Rightarrow> bfq_store \<Rightarrow> nat \<Rightarrow> nat \<Rightarrow> nat \<Rightarrow> bool \<Rightarrow> bool \<Rightarrow>
     bfq_queue option" where
  "merge_then_split kp jiffies bfqd h b q nq large_burst rw_write =
     (case bfq_merge_bfqqs bfqd h b q nq of
        None \<Rightarrow> None
      | Some (bfqd1, h1) \<Rightarrow>
          (case bics h1 b of
             None \<Rightarrow> None
           | Some c \<Rightarrow> bfq_set_request_split kp jiffies bfqd1 large_burst rw_write b c))"

text \<open>
  The idle-window and I/O-bound flags saved in the I/O context at an address.
\<close>

definition saved_flags :: "bfq_store \<Rightarrow> nat \<Rightarrow> (bool \<times> bool) option" where
  "saved_flags h b = map_option (\<lambda>c. (saved_idle_window c, saved_IO_bound c)) (bics h b)"

section \<open>Properties\<close>

subsection \<open>Word arithmetic\<close>

lemma unat_ucast_32_64: "unat (ucast w :: 64 word) = unat w" for w :: "32 word"
proof -
  have "unat w < 2 ^ 32" using unsigned_less [of w] by simp
  then have "unat w < (2 :: nat) ^ 64" by simp
  then show ?thesis by (simp add: unsigned_ucast_eq take_bit_nat_eq_self_iff)
qed

lemma sint_diff_small:
  fixes a b :: "64 word"
  assumes "uint a < 2 ^ 63" "uint b < 2 ^ 63"
  shows "sint (a - b) = uint a - uint b"
proof -
  have "a - b = word_of_int (uint a - uint b)" by simp
  then have "sint (a - b) = signed_take_bit 63 (uint a - uint b)"
    by (simp only: sint_sbintrunc') simp
  moreover have "signed_take_bit 63 (uint a - uint b) = uint a - uint b"
    using assms uint_ge_0 [of a] uint_ge_0 [of b]
    by (intro signed_take_bit_int_eq_self) linarith+
  ultimately show ?thesis by simp
qed

lemma uint_kabs:
  fixes x :: "64 word"
  assumes "- (2 ^ 63) < sint x"
  shows "uint (kabs x) = \<bar>sint x\<bar>"
proof -
  have r: "sint x < 2 ^ 63" using sint_less [of x] by simp
  show ?thesis
  proof (cases "sint x < 0")
    case True
    have "- x = word_of_int (- sint x)" by simp
    then have "uint (- x) = (- sint x) mod 2 ^ 64" by (simp only: uint_word_of_int) simp
    with True assms show ?thesis by (simp add: kabs_def)
  next
    case False
    have "uint (word_of_int (sint x) :: 64 word) = (sint x) mod 2 ^ 64"
      by (simp only: uint_word_of_int) simp
    then have "uint x = (sint x) mod 2 ^ 64" by simp
    with False r show ?thesis by (simp add: kabs_def)
  qed
qed





subsection \<open>Service charging\<close>

text \<open>
  C2. A request of \<open>n\<close> sectors is charged \<open>n\<close> to a queue that is sync or
  weight-raised (\<open>wr_coeff > 1\<close>); to any other queue it is charged
  \<open>n * bfq_async_charge_factor = n * 10\<close> when no weight-raised queue is busy and
  \<open>n * 2 * 10\<close> when one is. The hypothesis keeps the 32-bit product from
  wrapping; it holds for every request, whose length in bytes is a 32-bit value and
  whose length in sectors is therefore below \<open>2^23\<close>.
\<close>

theorem serv_to_charge_cases:
  assumes "2 * 10 * unat (blk_rq_sectors rq) < 2 ^ 32"
  shows "unat (bfq_serv_to_charge bfqd rq bfqq) =
     (if flag_sync bfqq \<or> wr_coeff bfqq > 1 then unat (blk_rq_sectors rq)
      else if wr_busy_queues bfqd = 0 then unat (blk_rq_sectors rq) * 10
      else unat (blk_rq_sectors rq) * 2 * 10)"
  using assms
  by (simp add: bfq_serv_to_charge_def bfq_async_charge_factor_def unat_ucast_32_64
      unat_word_ariths)

theorem serv_to_charge_cases_witness:
  "2 * 10 * unat (blk_rq_sectors (zero_request\<lparr>blk_rq_sectors := 8\<rparr>)) < (2::nat) ^ 32 \<and>
   unat (bfq_serv_to_charge (zero_bfqd\<lparr>wr_busy_queues := 1\<rparr>)
          (zero_request\<lparr>blk_rq_sectors := 8\<rparr>) (zero_bfqq\<lparr>wr_coeff := 1\<rparr>)) = 160"
  using serv_to_charge_cases [of "zero_request\<lparr>blk_rq_sectors := 8\<rparr>"
      "zero_bfqd\<lparr>wr_busy_queues := 1\<rparr>" "zero_bfqq\<lparr>wr_coeff := 1\<rparr>"]
  by (simp add: zero_request_def zero_bfqq_def zero_bfqd_def)

subsection \<open>The cooperator threshold\<close>

text \<open>
  C7, as stated: a candidate is close exactly when the distance between the two
  sectors is at most 8 MiB, that is \<open>8 * 1024\<close> KiB. It fails for a request at
  sector 16384 and the sector 0, which are exactly 8 MiB apart and are not close.
\<close>

theorem close_thr_8MiB_counterexample:
  "\<not> (bfq_rq_close_to_sector (IO_bio 16384) 0 \<longleftrightarrow>
        sector_distance 16384 0 \<le> 8 * 1024 * sectors_per_KiB)"
  by (simp add: bfq_rq_close_to_sector_def bfq_io_struct_pos_def BFQQ_CLOSE_THR_def kabs_def
      sector_distance_def sectors_per_KiB_def)

text \<open>
  C7, amended: the threshold is \<open>8 * 1024\<close> sectors, which is 4 MiB. For sector
  numbers below \<open>2^63\<close> (so that the signed reading of their difference is their
  difference) a request or bio is close to a sector exactly when their distance is at
  most \<open>4 * 1024\<close> KiB.
\<close>

theorem close_thr_4MiB:
  assumes "uint (bfq_io_struct_pos io) < 2 ^ 63" "uint sector < 2 ^ 63"
  shows "bfq_rq_close_to_sector io sector \<longleftrightarrow>
         sector_distance (bfq_io_struct_pos io) sector \<le> 4 * 1024 * sectors_per_KiB"
proof -
  let ?p = "bfq_io_struct_pos io"
  have d: "sint (?p - sector) = uint ?p - uint sector" using assms by (rule sint_diff_small)
  have "- (2 ^ 63) < sint (?p - sector)"
    using assms d uint_ge_0 [of ?p] uint_ge_0 [of sector] by linarith
  then have "uint (kabs (?p - sector)) = \<bar>uint ?p - uint sector\<bar>"
    using d by (simp add: uint_kabs)
  then have "bfq_rq_close_to_sector io sector \<longleftrightarrow> \<bar>uint ?p - uint sector\<bar> \<le> 8192"
    by (simp add: bfq_rq_close_to_sector_def BFQQ_CLOSE_THR_def word_le_def)
  also have "\<dots> \<longleftrightarrow> nat \<bar>uint ?p - uint sector\<bar> \<le> 8192" by linarith
  finally show ?thesis by (simp add: sector_distance_def sectors_per_KiB_def)
qed

theorem close_thr_4MiB_witness:
  "uint (bfq_io_struct_pos (IO_bio 8192)) < 2 ^ 63 \<and> uint (0 :: sector_t) < 2 ^ 63 \<and>
   bfq_rq_close_to_sector (IO_bio 8192) 0 \<and>
   sector_distance (bfq_io_struct_pos (IO_bio 8192)) 0 \<le> 4 * 1024 * sectors_per_KiB"
  using close_thr_4MiB [of "IO_bio 8192" 0]
  by (simp add: bfq_io_struct_pos_def sector_distance_def sectors_per_KiB_def)

subsection \<open>The post-expiry budget policy\<close>





subsection \<open>The budget invariant\<close>





lemma serv_to_charge_max_budget [simp]:
  "bfq_serv_to_charge bfqd rq (q\<lparr>max_budget := x\<rparr>) = bfq_serv_to_charge bfqd rq q"
  by (simp add: bfq_serv_to_charge_def)






subsection \<open>The peak-rate estimator\<close>

lemma rate_weight_le: "rate_weight b \<le> 8"
  by (simp add: rate_weight_def Let_def)

lemma rate_divisor_bounds: "2 \<le> rate_divisor b \<and> rate_divisor b \<le> 10"
proof -
  have "rate_weight b \<le> 8" by (rule rate_weight_le)
  then have "(10 + 2 ^ 32 - rate_weight b) mod 2 ^ 32 = 10 - rate_weight b"
    by (simp add: mod_if) 
  with \<open>rate_weight b \<le> 8\<close> show ?thesis by (simp add: rate_divisor_def)
qed

lemma reset_inv: "rate_inv (bfq_reset_rate_computation now b rq)"
  by (cases rq) (simp_all add: rate_inv_def bfq_reset_rate_computation_def)

lemma update_rate_reset_cases:
  assumes "bfq_update_rate_reset kp now b rq = Some b'"
  shows "\<exists>x. b' = bfq_reset_rate_computation now x rq"
proof (cases "peak_rate_samples b < BFQ_RATE_MIN_SAMPLES \<or>
         delta_from_first_us b < BFQ_RATE_MIN_INTERVAL")
  case True
  with assms show ?thesis unfolding bfq_update_rate_reset_def by auto
next
  case False
  note F = this
  let ?b1 = "rate_extend_interval b"
  show ?thesis
  proof (cases "rate_sample_rejected ?b1 (rate_bw ?b1)")
    case True
    with assms F show ?thesis unfolding bfq_update_rate_reset_def Let_def
      by (auto split: if_splits)
  next
    case False
    with assms F show ?thesis unfolding bfq_update_rate_reset_def Let_def
      by (auto split: if_splits)
  qed
qed

lemma update_rate_reset_inv: "bfq_update_rate_reset kp now b rq = Some b' \<Longrightarrow> rate_inv b'"
  using update_rate_reset_cases [of kp now b rq b'] reset_inv by auto

lemma update_last_values_inv [simp]: "rate_inv (update_last_values now rq b) = rate_inv b"
  by (simp add: rate_inv_def update_last_values_def)

lemma peak_rate_sample_strict:
  assumes "rate_inv b" "peak_rate_samples b \<noteq> 0" "peak_rate_sample now b rq = (b5, f)"
  shows "sequential_samples b5 < peak_rate_samples b5"
  using assms
  by (auto simp: peak_rate_sample_def rate_inv_def Let_def split: if_splits)

lemma completed_sample_counters:
  "completed_request_sample now b = (b1, f) \<Longrightarrow>
     peak_rate_samples b1 = peak_rate_samples b \<and> sequential_samples b1 = sequential_samples b"
  by (auto simp: completed_request_sample_def Let_def)

lemma rate_step_inv:
  assumes "rate_inv b" "rate_step kp b ev = Some b'"
  shows "rate_inv b'"
proof (cases ev)
  case (Ev_dispatch now_ns now_reset rq)
  show ?thesis
  proof (cases "peak_rate_samples b = 0")
    case True
    with assms Ev_dispatch show ?thesis
      by (auto simp: rate_step_def bfq_update_peak_rate_def reset_inv)
  next
    case False
    obtain b5 f where s: "peak_rate_sample now_ns b rq = (b5, f)"
      by (cases "peak_rate_sample now_ns b rq")
    from peak_rate_sample_strict [OF assms(1) False s]
    have "rate_inv b5" by (simp add: rate_inv_def)
    with assms Ev_dispatch False s show ?thesis
      by (cases f) (auto simp: rate_step_def bfq_update_peak_rate_def dest: update_rate_reset_inv)
  qed
next
  case (Ev_completed now_ns)
  obtain b1 f where s: "completed_request_sample now_ns b = (b1, f)"
    by (cases "completed_request_sample now_ns b")
  from completed_sample_counters [OF s] assms(1) have "rate_inv b1" by (simp add: rate_inv_def)
  with assms Ev_completed s show ?thesis
    by (cases f)
       (auto simp: rate_step_def bfq_completed_request_rate_def rate_inv_def
             split: if_splits dest!: update_rate_reset_inv)
next
  case Ev_activate
  with assms show ?thesis by (auto simp: rate_step_def rate_inv_def)
next
  case Ev_deactivate
  with assms show ?thesis by (auto simp: rate_step_def rate_inv_def split: if_splits)
qed

lemma rate_run_inv: "rate_inv b \<Longrightarrow> rate_run kp b evs = Some b' \<Longrightarrow> rate_inv b'"
proof (induction evs arbitrary: b)
  case Nil
  then show ?case by simp
next
  case (Cons ev evs)
  then show ?case by (auto split: option.splits dest: rate_step_inv)
qed

lemma rate_update_arg_inv:
  assumes "rate_inv b" "rate_update_arg b ev = Some a"
  shows "rate_inv a"
proof (cases ev)
  case (Ev_dispatch now_ns now_reset rq)
  with assms show ?thesis
    by (auto simp: rate_update_arg_def rate_inv_def split: if_splits prod.splits bool.splits
        dest: peak_rate_sample_strict [unfolded rate_inv_def, rotated 2])
next
  case (Ev_completed now_ns)
  with assms show ?thesis
    by (auto simp: rate_update_arg_def rate_inv_def split: if_splits prod.splits bool.splits
        dest!: completed_sample_counters)
qed (use assms in \<open>simp_all add: rate_update_arg_def\<close>)

lemma weight_lt_9: "s < (n::nat) \<Longrightarrow> (9 * s) div n \<le> 8"
proof -
  assume "s < n"
  then have "9 * s < 9 * n" by simp
  then have "(9 * s) div n < 9" by (simp add: less_mult_imp_div_less)
  then show ?thesis by simp
qed

text \<open>
  C10. Start from a state that satisfies the invariant of the sample counters (the
  zero-filled state does) and run any sequence of dispatches, completions, activations
  and deactivations. Whenever a callback then calls \<^verbatim>\<open>bfq_update_rate_reset\<close> on
  a state with the 32 samples that the filter needs, the sequential samples are strictly
  fewer than the samples (the first dispatch of a window sets the samples to 1 and the
  sequential samples to 0), so \<open>9 * sequential_samples / peak_rate_samples\<close> is at
  most 8 and its divisor is not zero; the smoothing weight is at most 8 and the divisor
  \<open>10 - weight\<close> of the filter is between 2 and 10.
\<close>

theorem rate_filter_division_safe:
  assumes "rate_inv bfqd0" and "rate_run kp bfqd0 evs = Some bfqd"
      and "rate_update_arg bfqd ev = Some b"
      and "BFQ_RATE_MIN_SAMPLES \<le> peak_rate_samples b"
  shows "sequential_samples b < peak_rate_samples b \<and>
         (9 * sequential_samples b) div peak_rate_samples b \<le> 8 \<and>
         rate_weight b \<le> 8 \<and> 2 \<le> rate_divisor b \<and> rate_divisor b \<le> 10"
proof -
  have "rate_inv bfqd" using assms(1,2) by (rule rate_run_inv)
  then have "rate_inv b" using assms(3) by (rule rate_update_arg_inv)
  with assms(4) have lt: "sequential_samples b < peak_rate_samples b"
    by (auto simp: rate_inv_def BFQ_RATE_MIN_SAMPLES_def)
  with weight_lt_9 [OF lt] rate_weight_le [of b] rate_divisor_bounds [of b] show ?thesis by simp
qed

theorem rate_filter_division_safe_witness:
  "rate_inv example_rate_bfqd \<and>
   rate_run example_kparams example_rate_bfqd [Ev_activate] =
     Some (example_rate_bfqd\<lparr>rq_in_driver := 1\<rparr>) \<and>
   rate_update_arg (example_rate_bfqd\<lparr>rq_in_driver := 1\<rparr>)
       (Ev_dispatch 2000000000 2000000000 (zero_request\<lparr>blk_rq_sectors := 8\<rparr>)) =
     Some (example_rate_bfqd\<lparr>rq_in_driver := 1, peak_rate_samples := 41,
             sequential_samples := 37, tot_sectors_dispatched := 100008,
             last_rq_max_size := 8, delta_from_first_us := 2000000\<rparr>) \<and>
   rate_divisor (example_rate_bfqd\<lparr>rq_in_driver := 1, peak_rate_samples := 41,
             sequential_samples := 37, tot_sectors_dispatched := 100008,
             last_rq_max_size := 8, delta_from_first_us := 2000000\<rparr>) \<le> 10"
proof -
  let ?b = "example_rate_bfqd\<lparr>rq_in_driver := 1, peak_rate_samples := 41,
             sequential_samples := 37, tot_sectors_dispatched := 100008,
             last_rq_max_size := 8, delta_from_first_us := 2000000\<rparr>"
  have i: "rate_inv example_rate_bfqd"
    by (simp add: rate_inv_def example_rate_bfqd_def zero_bfqd_def)
  have r: "rate_run example_kparams example_rate_bfqd [Ev_activate] =
     Some (example_rate_bfqd\<lparr>rq_in_driver := 1\<rparr>)"
    by (simp add: rate_step_def example_rate_bfqd_def zero_bfqd_def)
  have a: "rate_update_arg (example_rate_bfqd\<lparr>rq_in_driver := 1\<rparr>)
       (Ev_dispatch 2000000000 2000000000 (zero_request\<lparr>blk_rq_sectors := 8\<rparr>)) = Some ?b"
    by (simp add: rate_update_arg_def peak_rate_sample_def example_rate_bfqd_def zero_bfqd_def
        zero_request_def get_sdist_def BFQQ_SEEK_THR_def BFQ_MIN_TT_def
        BFQ_RATE_REF_INTERVAL_def Let_def)
  have m: "BFQ_RATE_MIN_SAMPLES \<le> peak_rate_samples ?b"
    by (simp add: BFQ_RATE_MIN_SAMPLES_def)
  from rate_filter_division_safe [OF i r a m] i r a show ?thesis by simp
qed

text \<open>
  With fewer sequential samples than samples, the test of the code on the number of
  samples is always true: a sample is rejected as soon as the raw rate is not above the
  current estimate, however sequential the window was.
\<close>

lemma rate_rejected_under_inv:
  "sequential_samples b < peak_rate_samples b \<Longrightarrow>
   rate_sample_rejected b bw \<longleftrightarrow> bw \<le> peak_rate b \<or> bw > 20 * 2 ^ BFQ_RATE_SHIFT"
  by (auto simp: rate_sample_rejected_def)

text \<open>
  C1. The sample is to be rejected exactly if the fraction of sequential samples is
  below 3/4 and the raw rate is at most the current estimate, or the raw rate is above
  \<open>20 * 2^16\<close>. The code compares \<^verbatim>\<open>peak_rate_samples > (3 * sequential_samples)>>2\<close>
  instead: in the example state, 36 of 40 samples are sequential and the raw rate 6553
  is below the estimate 7000, so the filter should be applied, but the code rejects the
  sample and only resets the window.
\<close>

theorem rate_reject_failing_input:
  "\<not> spec_rate_sample_rejected example_rate_bfqd (rate_bw example_rate_bfqd) \<and>
   rate_sample_rejected example_rate_bfqd (rate_bw example_rate_bfqd) \<and>
   bfq_update_rate_reset example_kparams 0 example_rate_bfqd None =
     Some (example_rate_bfqd\<lparr>peak_rate_samples := 0\<rparr>)"
  by (simp add: spec_rate_sample_rejected_def rate_sample_rejected_def rate_bw_def
      bfq_update_rate_reset_def bfq_reset_rate_computation_def example_rate_bfqd_def
      rate_extend_interval_def
      zero_bfqd_def BFQ_RATE_SHIFT_def BFQ_RATE_MIN_SAMPLES_def BFQ_RATE_MIN_INTERVAL_def Let_def)

subsection \<open>The idling decision\<close>

lemma rb_two_nodes:
  "\<not> RB_EMPTY_ROOT t \<and> (rb_left t \<noteq> Leaf \<or> rb_right t \<noteq> Leaf) \<longleftrightarrow> 2 \<le> rb_size t"
proof (cases t)
  case Leaf
  then show ?thesis by (simp add: RB_EMPTY_ROOT_def)
next
  case (Node l w r)
  have "l \<noteq> Leaf \<longleftrightarrow> 0 < rb_size l" by (cases l) simp_all
  moreover have "r \<noteq> Leaf \<longleftrightarrow> 0 < rb_size r" by (cases r) simp_all
  ultimately show ?thesis using Node by (auto simp: RB_EMPTY_ROOT_def)
qed

lemma differentiated_iff:
  "bfq_differentiated_weights kp bfqd \<longleftrightarrow>
     2 \<le> rb_size (queue_weights_tree bfqd) \<or>
     (CONFIG_BFQ_GROUP_IOSCHED kp \<and> 2 \<le> rb_size (group_weights_tree bfqd))"
  unfolding bfq_differentiated_weights_def
  using rb_two_nodes [of "queue_weights_tree bfqd"] rb_two_nodes [of "group_weights_tree bfqd"]
  by blast

text \<open>
  C5. In \<^verbatim>\<open>strict_guarantees\<close> mode \<^verbatim>\<open>bfq_bfqq_may_idle\<close> is true
  unconditionally. Otherwise it is true exactly if the queue is sync and either idling
  boosts the throughput (the device is not NCQ-capable, \<^verbatim>\<open>hw_tag == 0\<close>, or it is
  rotational and the queue is I/O-bound with its idle window enabled) while no
  weight-raised queue is busy, or idling is needed for the guarantees: the scenario is
  asymmetric (the queue is weight-raised, or a tree of weight counters has at least two
  nodes, that is two different weights are active) and the queue is not in a large
  burst. The timer is armed only under \<^verbatim>\<open>bfq_bfqq_must_idle\<close>, which implies
  \<^verbatim>\<open>bfq_bfqq_may_idle\<close>.
\<close>

theorem may_idle_conditions:
  "(strict_guarantees bfqd \<longrightarrow> bfq_bfqq_may_idle kp bfqd bfqq) \<and>
   (\<not> strict_guarantees bfqd \<longrightarrow>
      (bfq_bfqq_may_idle kp bfqd bfqq \<longleftrightarrow>
         flag_sync bfqq \<and>
         (((hw_tag bfqd = 0 \<or> (\<not> nonrot bfqd \<and> flag_IO_bound bfqq \<and> flag_idle_window bfqq)) \<and>
           wr_busy_queues bfqd = 0) \<or>
          ((wr_coeff bfqq > 1 \<or> 2 \<le> rb_size (queue_weights_tree bfqd) \<or>
            (CONFIG_BFQ_GROUP_IOSCHED kp \<and> 2 \<le> rb_size (group_weights_tree bfqd))) \<and>
           \<not> flag_in_large_burst bfqq)))) \<and>
   (bfq_bfqq_must_idle kp bfqd bfqq \<longrightarrow> bfq_bfqq_may_idle kp bfqd bfqq)"
  by (auto simp add: bfq_bfqq_may_idle_def bfq_bfqq_must_idle_def bfq_symmetric_scenario_def
      differentiated_iff Let_def)

theorem may_idle_conditions_witness:
  "\<not> strict_guarantees (zero_bfqd\<lparr>bfq_slice_idle := 8000000\<rparr>) \<and>
   bfq_bfqq_must_idle example_kparams (zero_bfqd\<lparr>bfq_slice_idle := 8000000\<rparr>)
     (zero_bfqq\<lparr>flag_sync := True\<rparr>) \<and>
   bfq_bfqq_may_idle example_kparams (zero_bfqd\<lparr>bfq_slice_idle := 8000000\<rparr>)
     (zero_bfqq\<lparr>flag_sync := True\<rparr>) \<and>
   flag_sync (zero_bfqq\<lparr>flag_sync := True\<rparr>) \<and>
   strict_guarantees (zero_bfqd\<lparr>strict_guarantees := True\<rparr>) \<and>
   bfq_bfqq_may_idle example_kparams (zero_bfqd\<lparr>strict_guarantees := True\<rparr>) zero_bfqq"
proof -
  have m: "bfq_bfqq_must_idle example_kparams (zero_bfqd\<lparr>bfq_slice_idle := 8000000\<rparr>)
     (zero_bfqq\<lparr>flag_sync := True\<rparr>)"
    by (simp add: bfq_bfqq_must_idle_def bfq_bfqq_may_idle_def zero_bfqd_def zero_bfqq_def)
  have s: "strict_guarantees (zero_bfqd\<lparr>strict_guarantees := True\<rparr>)" by simp
  have n: "\<not> strict_guarantees (zero_bfqd\<lparr>bfq_slice_idle := 8000000\<rparr>)"
    by (simp add: zero_bfqd_def)
  from may_idle_conditions [of "zero_bfqd\<lparr>bfq_slice_idle := 8000000\<rparr>" example_kparams
      "zero_bfqq\<lparr>flag_sync := True\<rparr>"] m n
  have a: "bfq_bfqq_may_idle example_kparams (zero_bfqd\<lparr>bfq_slice_idle := 8000000\<rparr>)
     (zero_bfqq\<lparr>flag_sync := True\<rparr>)" by blast
  from may_idle_conditions [of "zero_bfqd\<lparr>strict_guarantees := True\<rparr>" example_kparams
      zero_bfqq] s
  have b: "bfq_bfqq_may_idle example_kparams (zero_bfqd\<lparr>strict_guarantees := True\<rparr>) zero_bfqq"
    by blast
  from m n a b s show ?thesis by simp
qed

subsection \<open>The idle-slice timer\<close>






subsection \<open>Preemption by a newly busy queue\<close>

lemma update_budg_result:
  assumes "bfq_bfqq_update_budg_for_activation bfqd q ait w = Some (q1, wants)"
  shows "wr_coeff q1 = wr_coeff q \<and> (wants \<longleftrightarrow> (flag_non_blocking_wait_rq q \<and> ait) \<or> w)"
  using assms
  by (auto simp: bfq_bfqq_update_budg_for_activation_def Let_def split: if_splits option.splits)

lemma burst_reset_wr [simp]: "wr_coeff (switch_burst_reset kp j i q) = wr_coeff q"
  by (simp add: switch_burst_reset_def)

lemma io_bound_wr [simp]: "wr_coeff (switch_io_bound bfqd a q) = wr_coeff q"
  by (simp add: switch_io_bound_def Let_def)

lemma wr_on_rq_arrival_wr:
  assumes "bfq_update_bfqq_wr_on_rq_arrival kp j bfqd q old w i b s = Some q'"
      and "\<not> (old = 1 \<and> w)" "\<not> old > 1"
  shows "wr_coeff q' = wr_coeff q"
  using assms by (auto simp: bfq_update_bfqq_wr_on_rq_arrival_def)

lemma wr_update_wr:
  assumes "switch_wr_update kp j bfqd q old w i b s = Some q'"
  shows "(\<not> low_latency bfqd \<longrightarrow> wr_coeff q' = wr_coeff q) \<and>
         (\<not> (old = 1 \<and> w) \<and> \<not> old > 1 \<longrightarrow> wr_coeff q' = wr_coeff q)"
proof (cases "low_latency bfqd")
  case False
  with assms show ?thesis by (simp add: switch_wr_update_def)
next
  case True
  let ?q1 = "if time_is_after_jiffies j (split_time q)
             then q\<lparr>split_time := j - bfq_wr_min_idle_time bfqd - 1\<rparr> else q"
  have w1: "wr_coeff ?q1 = wr_coeff q" by simp
  show ?thesis
  proof (cases "time_is_before_jiffies j (split_time ?q1 + bfq_wr_min_idle_time bfqd)")
    case False
    with assms True w1 show ?thesis
      by (auto simp: switch_wr_update_def Let_def split: if_splits)
  next
    case T2: True
    from assms True T2 obtain q2 where
      a: "bfq_update_bfqq_wr_on_rq_arrival kp j bfqd ?q1 old w i b s = Some q2"
      and q': "wr_coeff q' = wr_coeff q2"
      unfolding switch_wr_update_def Let_def
      by (auto split: if_splits)
    from wr_on_rq_arrival_wr [OF a] w1 q' True show ?thesis by auto
  qed
qed

text \<open>
  C6, amended. When \<^verbatim>\<open>bfq_bfqq_handle_idle_busy_switch\<close> returns for a queue that
  \<^verbatim>\<open>bfq_add_request\<close> passes with its current \<^verbatim>\<open>wr_coeff\<close> as
  \<^verbatim>\<open>old_wr_coeff\<close>, and there is an in-service queue (with \<open>wr_coeff \<ge> 1\<close>):
  the in-service queue is expired with \<^verbatim>\<open>PREEMPTED\<close> exactly if low-latency mode
  is on or the newly busy queue is recovering a service hole (its flag
  \<^verbatim>\<open>non_blocking_wait_rq\<close> is set and the request arrived in time), the newly busy
  queue has a strictly higher \<^verbatim>\<open>wr_coeff\<close> than the in-service queue, and
  \<^verbatim>\<open>next_queue_may_preempt\<close> holds; otherwise nothing is expired.
\<close>

theorem idle_busy_switch_preempts:
  assumes r: "bfq_bfqq_handle_idle_busy_switch kp jiffies now_ns may_preempt bfqd qs p
                old_wr_coeff ler = Some (bfqd', qs', interactive, e)"
      and q: "qs p = Some bfqq" and old: "old_wr_coeff = wr_coeff bfqq"
      and s: "in_service_queue bfqd = Some s" "qs s = Some in_serv" "1 \<le> wr_coeff in_serv"
  shows "\<exists>bfqq'. qs' p = Some bfqq' \<and> qs' s = Some in_serv \<and>
           e = (if (low_latency bfqd \<or>
                    (flag_non_blocking_wait_rq bfqq \<and> switch_arrived_in_time now_ns ler bfqd)) \<and>
                   wr_coeff in_serv < wr_coeff bfqq' \<and> may_preempt
                then Some (s, BFQ_BFQQ_PREEMPTED) else None)"
proof -
  let ?ait = "switch_arrived_in_time now_ns ler bfqd"
  let ?w = "switch_wr_or_deserves_wr jiffies bfqd bfqq"
  let ?i = "switch_interactive jiffies bfqd bfqq"
  let ?ilt = "bfq_bfqq_idle_for_long_time jiffies bfqd bfqq"
  from r q have nb: "\<not> (budget (entity bfqq) < service (entity bfqq) \<or> in_service_queue bfqd = Some p)"
    unfolding bfq_bfqq_handle_idle_busy_switch_def Let_def by (auto split: if_splits)
  with s have sp: "s \<noteq> p" by auto
  from r q nb obtain q1 wants where
    ub: "bfq_bfqq_update_budg_for_activation bfqd bfqq ?ait ?w = Some (q1, wants)"
    unfolding bfq_bfqq_handle_idle_busy_switch_def Let_def
    by (auto split: option.splits)
  let ?q4 = "switch_io_bound bfqd ?ait
               ((switch_burst_reset kp jiffies ?ilt q1)\<lparr>flag_just_created := False\<rparr>)"
  from r q nb ub obtain q5 where
    wu: "switch_wr_update kp jiffies bfqd ?q4 old_wr_coeff ?w ?i (flag_in_large_burst bfqq)
           (switch_soft_rt jiffies bfqd bfqq) = Some q5"
    unfolding bfq_bfqq_handle_idle_busy_switch_def Let_def
    by (auto split: option.splits)
  let ?q7 = "q5\<lparr>last_idle_bklogged := jiffies, service_from_backlogged := 0,
                 flag_softrt_update := False, flag_busy := True\<rparr>"
  have qs': "qs' = qs(p \<mapsto> ?q7)"
    and e: "e = (if wants \<and> wr_coeff in_serv < wr_coeff ?q7 \<and> may_preempt
                 then Some (s, BFQ_BFQQ_PREEMPTED) else None)"
    using r q nb ub wu s sp
    unfolding bfq_bfqq_handle_idle_busy_switch_def Let_def bfq_add_bfqq_busy_def
    by (auto split: if_splits)
  have w4: "wr_coeff ?q4 = wr_coeff bfqq" using update_budg_result [OF ub] by simp
  have wants: "wants \<longleftrightarrow> (flag_non_blocking_wait_rq bfqq \<and> ?ait) \<or> ?w"
    using update_budg_result [OF ub] by simp
  have key: "wr_coeff in_serv < wr_coeff q5 \<Longrightarrow> low_latency bfqd \<Longrightarrow> ?w"
  proof -
    assume lt: "wr_coeff in_serv < wr_coeff q5" and ll: "low_latency bfqd"
    show ?w
    proof (rule ccontr)
      assume nw: "\<not> ?w"
      with ll have "\<not> wr_coeff bfqq > 1" by (auto simp: switch_wr_or_deserves_wr_def)
      with old nw wr_update_wr [OF wu] w4 have "wr_coeff q5 = wr_coeff bfqq" by auto
      with \<open>\<not> wr_coeff bfqq > 1\<close> lt s(3) show False by simp
    qed
  qed
  have wl: "?w \<Longrightarrow> low_latency bfqd" by (simp add: switch_wr_or_deserves_wr_def)
  have "e = (if (low_latency bfqd \<or> (flag_non_blocking_wait_rq bfqq \<and> ?ait)) \<and>
                   wr_coeff in_serv < wr_coeff ?q7 \<and> may_preempt
                then Some (s, BFQ_BFQQ_PREEMPTED) else None)"
    unfolding e wants using key wl by auto
  with qs' sp s show ?thesis by auto
qed

text \<open>
  C6, as stated: a newly busy queue with a strictly higher \<^verbatim>\<open>wr_coeff\<close> than the
  in-service queue, whose position would make it the next selected, gets the in-service
  queue expired. With low-latency mode off it does not: the queue at address 1 stays
  weight-raised with coefficient 30, the in-service queue at address 2 has coefficient
  1, \<^verbatim>\<open>next_queue_may_preempt\<close> is true, and no expiration is requested.
\<close>

theorem idle_busy_switch_preempts_counterexample:
  "switch_wr_coeff (bfq_bfqq_handle_idle_busy_switch example_kparams 1000 1000000000 True
       example_switch_bfqd example_switch_queues 1 30 0) 2 = Some 1 \<and>
   switch_wr_coeff (bfq_bfqq_handle_idle_busy_switch example_kparams 1000 1000000000 True
       example_switch_bfqd example_switch_queues 1 30 0) 1 = Some 30 \<and>
   switch_expire (bfq_bfqq_handle_idle_busy_switch example_kparams 1000 1000000000 True
       example_switch_bfqd example_switch_queues 1 30 0) = Some None"
  by (simp add: switch_wr_coeff_def switch_expire_def bfq_bfqq_handle_idle_busy_switch_def
      example_switch_bfqd_def example_switch_queues_def zero_bfqd_def zero_bfqq_def
      zero_request_def example_kparams_def bfq_bfqq_idle_for_long_time_def
      switch_arrived_in_time_def switch_soft_rt_def switch_interactive_def
      switch_wr_or_deserves_wr_def bfq_bfqq_update_budg_for_activation_def
      switch_burst_reset_def switch_io_bound_def switch_wr_update_def bfq_add_bfqq_busy_def
      bfq_serv_to_charge_def ulong_of_int_def int_of_ulong_def
      time_is_before_jiffies_def time_after_def Let_def)

theorem idle_busy_switch_preempts_witness:
  "switch_expire (bfq_bfqq_handle_idle_busy_switch example_kparams 1000 1000000000 True
       (example_switch_bfqd\<lparr>low_latency := True, bfq_wr_coeff := 30, peak_rate := 7000,
          RT_prod := 98000000\<rparr>) example_switch_queues 1 30 0)
     = Some (Some (2, BFQ_BFQQ_PREEMPTED))"
proof -
  let ?d = "example_switch_bfqd\<lparr>low_latency := True, bfq_wr_coeff := 30, peak_rate := 7000,
          RT_prod := 98000000\<rparr>"
  let ?R = "bfq_bfqq_handle_idle_busy_switch example_kparams 1000 1000000000 True ?d
       example_switch_queues 1 30 0"
  let ?q = "zero_bfqq\<lparr>flag_sync := True, wr_coeff := 30, max_budget := 1024,
                      next_rq := Some (zero_request\<lparr>blk_rq_sectors := 8\<rparr>),
                      sort_list_empty := False\<rparr>"
  let ?in_serv = "zero_bfqq\<lparr>flag_sync := True, wr_coeff := 1, flag_busy := True\<rparr>"
  have w: "switch_wr_coeff ?R 1 = Some 30"
    by (simp add: switch_wr_coeff_def bfq_bfqq_handle_idle_busy_switch_def
      example_switch_bfqd_def example_switch_queues_def zero_bfqd_def zero_bfqq_def
      zero_request_def example_kparams_def bfq_bfqq_idle_for_long_time_def
      switch_arrived_in_time_def switch_soft_rt_def switch_interactive_def
      switch_wr_or_deserves_wr_def bfq_bfqq_update_budg_for_activation_def
      switch_burst_reset_def switch_io_bound_def switch_wr_update_def bfq_add_bfqq_busy_def
      bfq_update_bfqq_wr_on_rq_arrival_def bfq_wr_duration_def
      bfq_serv_to_charge_def ulong_of_int_def int_of_ulong_def
      time_is_before_jiffies_def time_is_after_jiffies_def time_before_def time_after_def
      Let_def)
  then obtain d' qs' i e q' where R: "?R = Some (d', qs', i, e)"
    and q': "qs' 1 = Some q'" "wr_coeff q' = 30"
    by (auto simp: switch_wr_coeff_def split: option.splits)
  have p: "example_switch_queues 1 = Some ?q" "30 = wr_coeff ?q"
    "in_service_queue ?d = Some 2" "example_switch_queues 2 = Some ?in_serv"
    "1 \<le> wr_coeff ?in_serv" "low_latency ?d"
    by (simp_all add: example_switch_queues_def example_switch_bfqd_def)
  from idle_busy_switch_preempts [OF R p(1-5)] q' p(6)
  have "e = Some (2, BFQ_BFQQ_PREEMPTED)" by simp
  with R show ?thesis by (simp add: switch_expire_def)
qed

subsection \<open>Merging and splitting queues\<close>

lemma save_state_saved:
  assumes "bfq_bfqq_save_state h q = Some h'" "queues h q = Some bfqq" "bic bfqq = Some b"
  shows "\<exists>c. bics h' b = Some c \<and> saved_idle_window c = flag_idle_window bfqq \<and>
             saved_IO_bound c = flag_IO_bound bfqq \<and>
             saved_in_large_burst c = flag_in_large_burst bfqq \<and>
             was_in_burst_list c = in_burst_list bfqq"
  using assms by (auto simp: bfq_bfqq_save_state_def split: option.splits)

lemma init_bfqq_wr: "wr_coeff (bfq_init_bfqq kp j bfqd q c s) = 1"
  by (simp add: bfq_init_bfqq_def Let_def)

lemma set_request_split_restores:
  assumes "bfq_set_request_split kp j bfqd lb rw b c = Some fresh"
  shows "wr_coeff fresh = 1 \<and> bic fresh = Some b \<and>
         flag_idle_window fresh = saved_idle_window c \<and>
         flag_IO_bound fresh = saved_IO_bound c"
proof -
  let ?q1 = "bfq_init_bfqq kp j bfqd zero_bfqq (Some c) True"
  have r: "ref ?q1 = 0" "allocated_read ?q1 = 0" "allocated_write ?q1 = 0"
    "on_st (entity ?q1) = 0"
    by (simp_all add: bfq_init_bfqq_def bfq_set_next_ioprio_data_def zero_bfqq_def Let_def)
  have w: "wr_coeff ?q1 = 1" by (rule init_bfqq_wr)
  from assms r w show ?thesis
    unfolding bfq_set_request_split_def bfqq_process_refs_def bfq_bfqq_resume_state_def Let_def
    by (auto split: if_splits)
qed

lemma save_state_sets:
  assumes "bfq_bfqq_save_state h q = Some h'" "queues h q = Some bfqq" "bic bfqq = Some b"
  shows "saved_flags h' b = Some (flag_idle_window bfqq, flag_IO_bound bfqq)"
    and "queues h' = queues h"
  using assms by (auto simp: bfq_bfqq_save_state_def saved_flags_def split: option.splits)

lemma save_state_other:
  assumes "bfq_bfqq_save_state h q = Some h'" "queues h q = Some bfqq" "bic bfqq \<noteq> Some b"
  shows "saved_flags h' b = saved_flags h b" and "queues h' = queues h"
  using assms by (auto simp: bfq_bfqq_save_state_def saved_flags_def split: option.splits)

lemma io_bound_saved: "merge_io_bound h q nq = Some h' \<Longrightarrow> saved_flags h' b = saved_flags h b"
  by (auto simp: merge_io_bound_def saved_flags_def Let_def split: option.splits if_splits)

lemma inherit_wr_saved:
  "merge_inherit_wr bfqd h q nq = Some (bfqd', h') \<Longrightarrow> saved_flags h' b = saved_flags h b"
  by (auto simp: merge_inherit_wr_def saved_flags_def Let_def split: option.splits if_splits)

lemma get_ref_saved:
  "bfq_get_bic_reference h q = Some h' \<Longrightarrow> saved_flags h' b = saved_flags h b"
  by (auto simp: bfq_get_bic_reference_def saved_flags_def split: option.splits)

lemma redirect_saved:
  "merge_redirect h b' q nq = Some h' \<Longrightarrow> saved_flags h' b = saved_flags h b"
  by (auto simp: merge_redirect_def bic_set_bfqq_def saved_flags_def Let_def
      split: option.splits if_splits)

lemma put_queue_saved:
  "bfq_put_queue bfqd h q = Some h' \<Longrightarrow> saved_flags h' b = saved_flags h b"
  by (auto simp: bfq_put_queue_def saved_flags_def Let_def split: option.splits if_splits)

lemma merge_saves:
  assumes m: "bfq_merge_bfqqs bfqd h b q nq = Some (bfqd', h')"
      and q: "queues h q = Some bfqq" "bic bfqq = Some b"
      and n: "queues h nq = Some new" "bic new \<noteq> Some b"
  shows "saved_flags h' b = Some (flag_idle_window bfqq, flag_IO_bound bfqq)"
proof -
  from m obtain h1 h2 h3 bfqd1 h4 h5 h6 h7 where
    s: "bfq_bfqq_save_state h q = Some h1" "bfq_bfqq_save_state h1 nq = Some h2"
       "merge_io_bound h2 q nq = Some h3" "merge_inherit_wr bfqd h3 q nq = Some (bfqd1, h4)"
       "bfq_get_bic_reference h4 q = Some h5" "bfq_get_bic_reference h5 nq = Some h6"
       "merge_redirect h6 b q nq = Some h7" "bfq_put_queue bfqd1 h7 q = Some h'"
    unfolding bfq_merge_bfqqs_def by (auto split: option.splits)
  have 1: "saved_flags h1 b = Some (flag_idle_window bfqq, flag_IO_bound bfqq)"
    and q1: "queues h1 = queues h"
    using save_state_sets [OF s(1) q] by simp_all
  have "saved_flags h2 b = saved_flags h1 b"
    using save_state_other [OF s(2), of new b] n q1 by simp
  with 1 io_bound_saved [OF s(3)] inherit_wr_saved [OF s(4)] get_ref_saved [OF s(5)]
    get_ref_saved [OF s(6)] redirect_saved [OF s(7)] put_queue_saved [OF s(8)]
  show ?thesis by simp
qed

text \<open>
  What holds of the round trip in general: the queue that the I/O context gets back has
  the idle-window (and I/O-bound) flag that its queue had when it was merged, and it is
  not weight-raised, whatever the weight raising of its queue was.
\<close>

lemma merge_split_roundtrip:
  assumes m: "merge_then_split kp jiffies bfqd h b q nq lb rw = Some fresh"
      and q: "queues h q = Some bfqq" "bic bfqq = Some b"
      and n: "queues h nq = Some new" "bic new \<noteq> Some b"
  shows "flag_idle_window fresh = flag_idle_window bfqq \<and>
         flag_IO_bound fresh = flag_IO_bound bfqq \<and> wr_coeff fresh = 1"
proof -
  from m obtain bfqd1 h1 c where
    mm: "bfq_merge_bfqqs bfqd h b q nq = Some (bfqd1, h1)" and c: "bics h1 b = Some c"
    and sp: "bfq_set_request_split kp jiffies bfqd1 lb rw b c = Some fresh"
    unfolding merge_then_split_def by (auto split: option.splits)
  from merge_saves [OF mm q n] c
  have "saved_idle_window c = flag_idle_window bfqq" "saved_IO_bound c = flag_IO_bound bfqq"
    by (simp_all add: saved_flags_def)
  with set_request_split_restores [OF sp] show ?thesis by simp
qed

text \<open>
  C4. Merging and then splitting is to be a round trip for the saved state: the queue
  that the I/O context gets back after the split has the idle-window and the
  weight-raising state that its queue had when it was merged. The comments in the code
  say the same (``Save weight raising and idle window of the merged queues'', ``restore
  the idle window and the possible weight raising period''), but
  \<^verbatim>\<open>bfq_bfqq_save_state\<close> saves no weight-raising state and
  \<^verbatim>\<open>bfq_bfqq_resume_state\<close> restores none: the queue at address 1 is merged with
  a weight-raising coefficient of 30 and its idle window enabled, and the queue that its
  I/O context gets back has its idle window enabled and the coefficient 1.
\<close>

theorem merge_split_failing_input:
  "map_option wr_coeff (queues example_merge_store 1) = Some 30 \<and>
   map_option flag_idle_window (queues example_merge_store 1) = Some True \<and>
   map_option wr_coeff
     (merge_then_split example_kparams 1000 example_bfqd example_merge_store 7 1 2 False False)
     = Some 1 \<and>
   map_option flag_idle_window
     (merge_then_split example_kparams 1000 example_bfqd example_merge_store 7 1 2 False False)
     = Some True"
proof -
  have m: "bfq_merge_bfqqs example_bfqd example_merge_store 7 1 2 =
    Some (example_bfqd,
      \<lparr>queues = [1 \<mapsto> zero_bfqq\<lparr>flag_sync := True, flag_idle_window := True, wr_coeff := 1,
                                wr_cur_max_time := 5000, bic := None, ref := 1,
                                entity := \<lparr>budget = 0, service = 0, prio_changed = True, on_st = 0\<rparr>\<rparr>,
                 2 \<mapsto> zero_bfqq\<lparr>flag_sync := True, wr_coeff := 30, wr_cur_max_time := 5000,
                                bic := None, ref := 2, flag_coop := True,
                                entity := \<lparr>budget = 0, service = 0, prio_changed = True, on_st = 0\<rparr>\<rparr>],
      bics = [7 \<mapsto> zero_bic\<lparr>bic_bfqq_sync := Some 2, saved_idle_window := True, ioc_refcount := 1\<rparr>,
              8 \<mapsto> zero_bic\<lparr>bic_bfqq_sync := Some 2, ioc_refcount := 1\<rparr>]\<rparr>)"
    by (simp add: bfq_merge_bfqqs_def bfq_bfqq_save_state_def merge_io_bound_def
        merge_inherit_wr_def bfq_get_bic_reference_def merge_redirect_def bic_set_bfqq_def
        bfq_put_queue_def example_merge_store_def example_bfqd_def zero_bfqq_def zero_bic_def
        zero_bfqd_def Let_def fun_upd_twist)
  have s: "merge_then_split example_kparams 1000 example_bfqd example_merge_store 7 1 2 False False =
      bfq_set_request_split example_kparams 1000 example_bfqd False False 7
        (zero_bic\<lparr>bic_bfqq_sync := Some 2, saved_idle_window := True, ioc_refcount := 1\<rparr>)"
    unfolding merge_then_split_def m by simp
  have o: "map_option wr_coeff (queues example_merge_store 1) = Some 30 \<and>
   map_option flag_idle_window (queues example_merge_store 1) = Some True"
    by (simp add: example_merge_store_def)
  have f: "map_option wr_coeff (bfq_set_request_split example_kparams 1000 example_bfqd False False 7
        (zero_bic\<lparr>bic_bfqq_sync := Some 2, saved_idle_window := True, ioc_refcount := 1\<rparr>)) = Some 1 \<and>
     map_option flag_idle_window (bfq_set_request_split example_kparams 1000 example_bfqd False False 7
        (zero_bic\<lparr>bic_bfqq_sync := Some 2, saved_idle_window := True, ioc_refcount := 1\<rparr>)) = Some True"
    by (simp add: bfq_set_request_split_def bfq_init_bfqq_def
        bfq_set_next_ioprio_data_def bfqq_process_refs_def bfq_bfqq_resume_state_def
        zero_bfqq_def zero_bic_def Let_def)
  from o f show ?thesis unfolding s by simp
qed

end
